theory Spec2Isabelle
  imports Main "HOL-Library.AList" "HOL-Library.Char_ord" "HOL-Library.List_Lexorder"
begin

section \<open>GrokDB: the data-access layer of \<^verbatim>\<open>src/index.ts\<close>\<close>

text \<open>
  The class \<^verbatim>\<open>GrokDB\<close> of \<^verbatim>\<open>src/index.ts\<close> is embedded as functions over an explicit
  state. What the class calls in other packages is not code of the repository and enters
  every function as a parameter:
  \<^item> \<^verbatim>\<open>JSON.parse\<close>, \<^verbatim>\<open>JSON.stringify\<close>, \<^verbatim>\<open>CryptoJS.AES.encrypt\<close> and
    \<^verbatim>\<open>CryptoJS.AES.decrypt\<close> are the fields of a record \<open>js_runtime\<close>;
  \<^item> the statements of \<^verbatim>\<open>better-sqlite3\<close> are the fields of a record \<open>database\<close>
    over a storage type \<open>'db\<close>;
  \<^item> \<^verbatim>\<open>existsSync\<close> of \<^verbatim>\<open>fs\<close> is an argument of \<open>migrate\<close>.
  An identifier that the module uses and does not bind is modelled as unbound: reading it
  throws a \<^verbatim>\<open>ReferenceError\<close>.

  An exception is a value \<open>Inl e\<close>; every operation returns its outcome together with
  the state it leaves behind, so that what a raising call did before it raised is visible.
\<close>

subsection \<open>JavaScript values and errors\<close>

text \<open>
  The values a payload carries. Numbers are the integers; \<^verbatim>\<open>undefined\<close>, functions and
  cyclic objects, which \<^verbatim>\<open>JSON.stringify\<close> does not serialise, are not values of the model.
  An object is the list of its own properties in enumeration order.
\<close>

datatype jsvalue =
    VNull
  | VBool bool
  | VNum int
  | VStr string
  | VArr "jsvalue list"
  | VObj "(string \<times> jsvalue) list"

type_synonym row = "(string \<times> jsvalue) list"

datatype error =
    TableNotFound string      \<comment> \<open>\<^verbatim>\<open>new Error(`Table ${table} does not exist`)\<close>\<close>
  | ValidationError string    \<comment> \<open>the \<^verbatim>\<open>ZodError\<close> of a validator\<close>
  | SyntaxError string        \<comment> \<open>thrown by \<^verbatim>\<open>JSON.parse\<close>\<close>
  | CryptoError string        \<comment> \<open>thrown by \<^verbatim>\<open>CryptoJS\<close>\<close>
  | SqliteError string        \<comment> \<open>thrown by a statement of the storage engine\<close>
  | ThrownError string        \<comment> \<open>anything a migration procedure throws\<close>
  | ReferenceError string     \<comment> \<open>thrown when an unbound identifier is read\<close>

text \<open>\<^verbatim>\<open>typeof value === 'string'\<close>\<close>

fun is_string :: "jsvalue \<Rightarrow> bool" where
  "is_string (VStr s) = True"
| "is_string _ = False"

text \<open>The truthiness of an optional string: \<^verbatim>\<open>undefined\<close> and \<^verbatim>\<open>''\<close> are falsy.\<close>

fun truthy_string :: "string option \<Rightarrow> bool" where
  "truthy_string None = False"
| "truthy_string (Some s) = (s \<noteq> [])"

text \<open>The truthiness of an optional number: \<^verbatim>\<open>undefined\<close> and \<^verbatim>\<open>0\<close> are falsy.\<close>

fun truthy_number :: "int option \<Rightarrow> bool" where
  "truthy_number None = False"
| "truthy_number (Some n) = (n \<noteq> 0)"

record js_runtime =
  json_parse :: "string \<Rightarrow> error + jsvalue"
  json_stringify :: "jsvalue \<Rightarrow> string"
  aes_encrypt :: "string \<Rightarrow> string \<Rightarrow> string"
    \<comment> \<open>\<^verbatim>\<open>CryptoJS.AES.encrypt(value, key).toString()\<close>, as \<open>aes_encrypt rt value key\<close>\<close>
  aes_decrypt :: "string \<Rightarrow> string \<Rightarrow> error + string"
    \<comment> \<open>\<^verbatim>\<open>CryptoJS.AES.decrypt(value, key).toString(CryptoJS.enc.Utf8)\<close>\<close>

subsection \<open>Schemas\<close>

datatype ColumnType = TEXT | INTEGER | REAL | BLOB | NULL | DATETIME

datatype ForeignKeyAction = CASCADE | SET_NULL | RESTRICT

record ForeignKey =
  fk_table :: string
  fk_column :: string
  onDelete :: "ForeignKeyAction option"
  onUpdate :: "ForeignKeyAction option"

text \<open>An optional flag of \<^verbatim>\<open>ColumnDefinition\<close> is only ever tested for truthiness: a
  missing flag is \<open>False\<close>.\<close>

record ColumnDefinition =
  type :: ColumnType
  primary :: bool
  unique :: bool
  default :: "jsvalue option"
  notNull :: bool
  encrypted :: bool
  index :: bool
  json :: bool
  softDelete :: bool
  foreignKey :: "ForeignKey option"

type_synonym TableSchema = "(string \<times> ColumnDefinition) list"

text \<open>A column of the given type with no flag set, as \<^verbatim>\<open>{ type: t }\<close>.\<close>

definition column :: "ColumnType \<Rightarrow> ColumnDefinition" where
  "column t = \<lparr>type = t, primary = False, unique = False, default = None, notNull = False,
     encrypted = False, index = False, json = False, softDelete = False, foreignKey = None\<rparr>"

subsection \<open>The field codec: \<^verbatim>\<open>processValue\<close> and \<^verbatim>\<open>unprocessValue\<close>\<close>

text \<open>
  \<^verbatim>\<open>
  private processValue(value: any, config: ColumnDefinition): any {
    if (config.json && value !== null) {
      return typeof value === 'string' ? JSON.parse(value) : JSON.stringify(value);
    }
    if (config.encrypted && typeof value === 'string') {
      return this.encryptionKey
        ? CryptoJS.AES.encrypt(value, this.encryptionKey).toString()
        : value;
    }
    return value;
  }
  \<close>
  The first argument of the model is the runtime, the second \<^verbatim>\<open>this.encryptionKey\<close>.
\<close>

definition processValue ::
  "js_runtime \<Rightarrow> string option \<Rightarrow> jsvalue \<Rightarrow> ColumnDefinition \<Rightarrow> error + jsvalue" where
  "processValue rt key value config =
     (if json config \<and> value \<noteq> VNull then
        (case value of
           VStr s \<Rightarrow> json_parse rt s
         | _ \<Rightarrow> Inr (VStr (json_stringify rt value)))
      else if encrypted config \<and> is_string value then
        (case value of
           VStr s \<Rightarrow>
             (if truthy_string key then Inr (VStr (aes_encrypt rt s (the key))) else Inr value)
         | _ \<Rightarrow> Inr value)
      else Inr value)"

text \<open>
  \<^verbatim>\<open>
  private unprocessValue(value: any, config: ColumnDefinition): any {
    if (config.json && value !== null) {
      return typeof value === 'string' ? JSON.parse(value) : value;
    }
    if (config.encrypted && typeof value === 'string' && this.encryptionKey) {
      try {
        const bytes = CryptoJS.AES.decrypt(value, this.encryptionKey);
        return bytes.toString(CryptoJS.enc.Utf8);
      } catch {
        return value;
      }
    }
    return value;
  }
  \<close>
\<close>

definition unprocessValue ::
  "js_runtime \<Rightarrow> string option \<Rightarrow> jsvalue \<Rightarrow> ColumnDefinition \<Rightarrow> error + jsvalue" where
  "unprocessValue rt key value config =
     (if json config \<and> value \<noteq> VNull then
        (case value of
           VStr s \<Rightarrow> json_parse rt s
         | _ \<Rightarrow> Inr value)
      else if encrypted config \<and> is_string value \<and> truthy_string key then
        (case value of
           VStr s \<Rightarrow>
             (case aes_decrypt rt s (the key) of
                Inr plain \<Rightarrow> Inr (VStr plain)
              | Inl e \<Rightarrow> Inr value)
         | _ \<Rightarrow> Inr value)
      else Inr value)"

subsection \<open>Strings\<close>

text \<open>\<^verbatim>\<open>xs.join(sep)\<close>\<close>

fun join :: "string \<Rightarrow> string list \<Rightarrow> string" where
  "join sep [] = []"
| "join sep [x] = x"
| "join sep (x # y # ys) = x @ sep @ join sep (y # ys)"

text \<open>\<^verbatim>\<open>f.endsWith(suffix)\<close>\<close>

definition endsWith :: "string \<Rightarrow> string \<Rightarrow> bool" where
  "endsWith f suffix = (length suffix \<le> length f \<and> drop (length f - length suffix) f = suffix)"

text \<open>The decimal text of a number in a template literal, \<^verbatim>\<open>`${n}`\<close>.\<close>

definition digit :: "nat \<Rightarrow> char" where
  "digit n = ''0123456789'' ! (n mod 10)"

function show_nat :: "nat \<Rightarrow> string" where
  "show_nat n = (if n < 10 then [digit n] else show_nat (n div 10) @ [digit (n mod 10)])"
  by pat_completeness auto
termination
  by (relation "measure id") auto

definition show_int :: "int \<Rightarrow> string" where
  "show_int i = (if i < 0 then CHR ''-'' # show_nat (nat (- i)) else show_nat (nat i))"

subsection \<open>The state of a \<^verbatim>\<open>GrokDB\<close> and its collaborators\<close>

text \<open>
  A validator is a \<^verbatim>\<open>z.ZodSchema\<close>. The class calls \<^verbatim>\<open>validator.parse(data)\<close> and
  \<^verbatim>\<open>validator.partial().parse(data)\<close> and drops what they return, so a validator is the
  two outcomes: \<open>None\<close> when the payload passes, the error otherwise.
\<close>

record ZodSchema =
  parse :: "row \<Rightarrow> error option"
  partial_parse :: "row \<Rightarrow> error option"

text \<open>What \<^verbatim>\<open>stmt.run\<close> returns.\<close>

record RunResult =
  changes :: nat
  lastInsertRowid :: int

text \<open>
  The storage engine: \<^verbatim>\<open>this.db.prepare(sql).run(params)\<close> and
  \<^verbatim>\<open>this.db.prepare(sql).all(params)\<close> on a storage \<open>'db\<close>. A statement that the engine
  refuses (at \<^verbatim>\<open>prepare\<close> or when it runs) is \<open>Inl\<close>.
\<close>

record 'db database =
  stmt_run :: "string \<Rightarrow> jsvalue list \<Rightarrow> 'db \<Rightarrow> error + (RunResult \<times> 'db)"
  stmt_all :: "string \<Rightarrow> jsvalue list \<Rightarrow> 'db \<Rightarrow> error + row list"

text \<open>\<^verbatim>\<open>this.db.prepare(sql).get(params)\<close>: the first row, if any.\<close>

definition stmt_get :: "'db database \<Rightarrow> string \<Rightarrow> jsvalue list \<Rightarrow> 'db \<Rightarrow> error + row option" where
  "stmt_get eng sql params d =
     (case stmt_all eng sql params d of
        Inl e \<Rightarrow> Inl e
      | Inr [] \<Rightarrow> Inr None
      | Inr (r # rs) \<Rightarrow> Inr (Some r))"

text \<open>
  The fields of the class, and \<open>emitted\<close>: the events handed to \<^verbatim>\<open>this.emit\<close> so far, oldest
  first, each with its topic and its payload. Listeners are outside the model.
\<close>

record 'db GrokDB =
  db :: 'db
  tables :: "string \<rightharpoonup> TableSchema"
  encryptionKey :: "string option"
  validators :: "string \<rightharpoonup> ZodSchema"
  migrationPath :: string
  emitted :: "(string \<times> jsvalue) list"

definition emit :: "string \<Rightarrow> jsvalue \<Rightarrow> 'db GrokDB \<Rightarrow> 'db GrokDB" where
  "emit topic payload g = g\<lparr>emitted := emitted g @ [(topic, payload)]\<rparr>"

text \<open>\<^verbatim>\<open>createTable\<close> and \<^verbatim>\<open>setValidator\<close>, as far as the registry goes.\<close>

definition setValidator :: "string \<Rightarrow> ZodSchema \<Rightarrow> 'db GrokDB \<Rightarrow> 'db GrokDB" where
  "setValidator table schema g = g\<lparr>validators := (validators g)(table \<mapsto> schema)\<rparr>"

definition getSchema :: "string \<Rightarrow> 'db GrokDB \<Rightarrow> TableSchema option" where
  "getSchema table g = tables g table"

subsection \<open>Coding a whole row\<close>

text \<open>
  \<^verbatim>\<open>
  const processedData = { ...data };
  Object.entries(schema).forEach(([key, config]) => {
    if (key in processedData) {
      processedData[key] = this.processValue(processedData[key], config);
    }
  });
  \<close>
  The columns are visited in the order of the schema; the first one whose codec throws ends
  the loop. Assigning to a property that exists keeps its place in the object.
\<close>

fun processData ::
  "js_runtime \<Rightarrow> string option \<Rightarrow> TableSchema \<Rightarrow> row \<Rightarrow> error + row" where
  "processData rt key [] processedData = Inr processedData"
| "processData rt key ((k, config) # schema) processedData =
     (case map_of processedData k of
        None \<Rightarrow> processData rt key schema processedData
      | Some value \<Rightarrow>
          (case processValue rt key value config of
             Inl e \<Rightarrow> Inl e
           | Inr v \<Rightarrow> processData rt key schema (AList.update k v processedData)))"

fun unprocessRow ::
  "js_runtime \<Rightarrow> string option \<Rightarrow> TableSchema \<Rightarrow> row \<Rightarrow> error + row" where
  "unprocessRow rt key [] unprocessedRow = Inr unprocessedRow"
| "unprocessRow rt key ((k, config) # schema) unprocessedRow =
     (case map_of unprocessedRow k of
        None \<Rightarrow> unprocessRow rt key schema unprocessedRow
      | Some value \<Rightarrow>
          (case unprocessValue rt key value config of
             Inl e \<Rightarrow> Inl e
           | Inr v \<Rightarrow> unprocessRow rt key schema (AList.update k v unprocessedRow)))"

text \<open>\<^verbatim>\<open>results.map(row => ...)\<close>, ended by the first row that throws.\<close>

fun unprocessRows ::
  "js_runtime \<Rightarrow> string option \<Rightarrow> TableSchema \<Rightarrow> row list \<Rightarrow> error + row list" where
  "unprocessRows rt key schema [] = Inr []"
| "unprocessRows rt key schema (r # rs) =
     (case unprocessRow rt key schema r of
        Inl e \<Rightarrow> Inl e
      | Inr r' \<Rightarrow>
          (case unprocessRows rt key schema rs of
             Inl e \<Rightarrow> Inl e
           | Inr rs' \<Rightarrow> Inr (r' # rs')))"

subsection \<open>\<^verbatim>\<open>insert\<close>\<close>

text \<open>
  \<^verbatim>\<open>
  insert(table: string, data: Record<string, any>) {
    const schema = this.tables.get(table);
    if (!schema) throw new Error(`Table ${table} does not exist`);
    const validator = this.validators.get(table);
    if (validator) {
      validator.parse(data);
    }
    const processedData = { ...data };
    Object.entries(schema).forEach(...);
    const columns = Object.keys(processedData).join(', ');
    const values = Object.values(processedData);
    const placeholders = values.map(() => '?').join(', ');
    const stmt = this.db.prepare(
      `INSERT INTO ${table} (${columns}) VALUES (${placeholders})`
    );
    const result = stmt.run(values);
    this.emit(`${table}:insert`, { ...data, id: result.lastInsertRowid });
    return result;
  }
  \<close>
\<close>

definition insert_sql :: "string \<Rightarrow> row \<Rightarrow> string" where
  "insert_sql table processedData =
     ''INSERT INTO '' @ table @ '' ('' @ join '', '' (map fst processedData) @ '') VALUES (''
       @ join '', '' (map (\<lambda>_. ''?'') processedData) @ '')''"

definition insert ::
  "js_runtime \<Rightarrow> 'db database \<Rightarrow> string \<Rightarrow> row \<Rightarrow> 'db GrokDB \<Rightarrow> (error + RunResult) \<times> 'db GrokDB" where
  "insert rt eng table data g =
     (case tables g table of
        None \<Rightarrow> (Inl (TableNotFound table), g)
      | Some schema \<Rightarrow>
          (case (case validators g table of None \<Rightarrow> None | Some validator \<Rightarrow> parse validator data) of
             Some e \<Rightarrow> (Inl e, g)
           | None \<Rightarrow>
               (case processData rt (encryptionKey g) schema data of
                  Inl e \<Rightarrow> (Inl e, g)
                | Inr processedData \<Rightarrow>
                    (case stmt_run eng (insert_sql table processedData) (map snd processedData) (db g) of
                       Inl e \<Rightarrow> (Inl e, g)
                     | Inr (result, d) \<Rightarrow>
                         (Inr result,
                          emit (table @ '':insert'')
                            (VObj (AList.update ''id'' (VNum (lastInsertRowid result)) data))
                            (g\<lparr>db := d\<rparr>))))))"

subsection \<open>\<^verbatim>\<open>find\<close> and \<^verbatim>\<open>findOne\<close>\<close>

datatype Direction = ASC | DESC

fun direction_text :: "Direction \<Rightarrow> string" where
  "direction_text ASC = ''ASC''"
| "direction_text DESC = ''DESC''"

record OrderBy =
  ob_column :: string
  ob_direction :: Direction

record QueryOptions =
  limit :: "int option"
  offset :: "int option"
  includeDeleted :: bool
  orderBy :: "OrderBy option"

text \<open>\<^verbatim>\<open>options = {}\<close>\<close>

definition no_options :: QueryOptions where
  "no_options = \<lparr>limit = None, offset = None, includeDeleted = False, orderBy = None\<rparr>"

text \<open>
  \<^verbatim>\<open>
  const conditions = [];
  const hasSoftDelete = Object.entries(schema).some(([_, config]) => config.softDelete);
  if (hasSoftDelete && !options.includeDeleted) {
    conditions.push('deleted_at IS NULL');
  }
  Object.entries(where).forEach(([key, value]) => {
    conditions.push(`${key} = ?`);
    values.push(value);
  });
  \<close>
\<close>

definition hasSoftDelete :: "TableSchema \<Rightarrow> bool" where
  "hasSoftDelete schema = list_ex (\<lambda>(_, config). softDelete config) schema"

definition find_conditions :: "TableSchema \<Rightarrow> row \<Rightarrow> QueryOptions \<Rightarrow> string list" where
  "find_conditions schema whereObj options =
     (if hasSoftDelete schema \<and> \<not> includeDeleted options then [''deleted_at IS NULL''] else [])
     @ map (\<lambda>(key, value). key @ '' = ?'') whereObj"

text \<open>
  \<^verbatim>\<open>
  let query = conditions.length
    ? `SELECT * FROM ${table} WHERE ${conditions.join(' AND ')}`
    : `SELECT * FROM ${table}`;
  if (options.orderBy) {
    query += ` ORDER BY ${options.orderBy.column} ${options.orderBy.direction}`;
  }
  if (options.limit) {
    query += ` LIMIT ${options.limit}`;
    if (options.offset) {
      query += ` OFFSET ${options.offset}`;
    }
  }
  \<close>
\<close>

definition find_query :: "string \<Rightarrow> TableSchema \<Rightarrow> row \<Rightarrow> QueryOptions \<Rightarrow> string" where
  "find_query table schema whereObj options =
     (let conditions = find_conditions schema whereObj options in
      (if conditions \<noteq> []
       then ''SELECT * FROM '' @ table @ '' WHERE '' @ join '' AND '' conditions
       else ''SELECT * FROM '' @ table)
      @ (case orderBy options of
           None \<Rightarrow> []
         | Some ob \<Rightarrow> '' ORDER BY '' @ ob_column ob @ '' '' @ direction_text (ob_direction ob))
      @ (if truthy_number (limit options)
         then '' LIMIT '' @ show_int (the (limit options))
              @ (if truthy_number (offset options)
                 then '' OFFSET '' @ show_int (the (offset options)) else [])
         else []))"

text \<open>
  \<^verbatim>\<open>
  const stmt = this.db.prepare(query);
  const results = stmt.all(values);
  return results.map(row => { ... unprocessValue ... });
  \<close>
  \<^verbatim>\<open>find\<close> leaves the state as it is, so the model returns the outcome only.
\<close>

definition find ::
  "js_runtime \<Rightarrow> 'db database \<Rightarrow> string \<Rightarrow> row \<Rightarrow> QueryOptions \<Rightarrow> 'db GrokDB \<Rightarrow> error + row list" where
  "find rt eng table whereObj options g =
     (case tables g table of
        None \<Rightarrow> Inl (TableNotFound table)
      | Some schema \<Rightarrow>
          (case stmt_all eng (find_query table schema whereObj options) (map snd whereObj) (db g) of
             Inl e \<Rightarrow> Inl e
           | Inr results \<Rightarrow> unprocessRows rt (encryptionKey g) schema results))"

text \<open>
  \<^verbatim>\<open>
  findOne(table, where = {}, options = {}) {
    const results = this.find(table, where, { ...options, limit: 1 });
    return results[0] || null;
  }
  \<close>
\<close>

definition findOne ::
  "js_runtime \<Rightarrow> 'db database \<Rightarrow> string \<Rightarrow> row \<Rightarrow> QueryOptions \<Rightarrow> 'db GrokDB \<Rightarrow> error + row option" where
  "findOne rt eng table whereObj options g =
     (case find rt eng table whereObj (options\<lparr>limit := Some 1\<rparr>) g of
        Inl e \<Rightarrow> Inl e
      | Inr [] \<Rightarrow> Inr None
      | Inr (r # rs) \<Rightarrow> Inr (Some r))"

subsection \<open>\<^verbatim>\<open>update\<close> and \<^verbatim>\<open>delete\<close>\<close>

text \<open>
  \<^verbatim>\<open>
  update(table: string, data: Record<string, any>, where: Record<string, any>) {
    const schema = this.tables.get(table);
    if (!schema) throw new Error(`Table ${table} does not exist`);
    const validator = this.validators.get(table);
    if (validator) {
      validator.partial().parse(data);
    }
    const processedData = { ...data };
    Object.entries(schema).forEach(...);
    const setClause = Object.keys(processedData).map(key => `${key} = ?`).join(', ');
    const whereClause = Object.keys(where).map(key => `${key} = ?`).join(' AND ');
    const stmt = this.db.prepare(
      `UPDATE ${table} SET ${setClause} WHERE ${whereClause}`
    );
    const result = stmt.run([...Object.values(processedData), ...Object.values(where)]);
    this.emit(`${table}:update`, { where, data });
    return result;
  }
  \<close>
\<close>

definition update_sql :: "string \<Rightarrow> row \<Rightarrow> row \<Rightarrow> string" where
  "update_sql table processedData whereObj =
     ''UPDATE '' @ table @ '' SET '' @ join '', '' (map (\<lambda>(key, _). key @ '' = ?'') processedData)
       @ '' WHERE '' @ join '' AND '' (map (\<lambda>(key, _). key @ '' = ?'') whereObj)"

definition update ::
  "js_runtime \<Rightarrow> 'db database \<Rightarrow> string \<Rightarrow> row \<Rightarrow> row \<Rightarrow> 'db GrokDB \<Rightarrow> (error + RunResult) \<times> 'db GrokDB" where
  "update rt eng table data whereObj g =
     (case tables g table of
        None \<Rightarrow> (Inl (TableNotFound table), g)
      | Some schema \<Rightarrow>
          (case (case validators g table of None \<Rightarrow> None
                 | Some validator \<Rightarrow> partial_parse validator data) of
             Some e \<Rightarrow> (Inl e, g)
           | None \<Rightarrow>
               (case processData rt (encryptionKey g) schema data of
                  Inl e \<Rightarrow> (Inl e, g)
                | Inr processedData \<Rightarrow>
                    (case stmt_run eng (update_sql table processedData whereObj)
                            (map snd processedData @ map snd whereObj) (db g) of
                       Inl e \<Rightarrow> (Inl e, g)
                     | Inr (result, d) \<Rightarrow>
                         (Inr result,
                          emit (table @ '':update'')
                            (VObj [(''where'', VObj whereObj), (''data'', VObj data)])
                            (g\<lparr>db := d\<rparr>))))))"

text \<open>
  \<^verbatim>\<open>
  delete(table: string, where: Record<string, any>) {
    const schema = this.tables.get(table);
    if (!schema) throw new Error(`Table ${table} does not exist`);
    const softDeleteColumn = Object.entries(schema).find(([_, config]) => config.softDelete)?.[0];
    if (softDeleteColumn) {
      return this.update(table, { [softDeleteColumn]: new Date().toISOString() }, where);
    }
    const conditions = Object.entries(where).map(([key]) => `${key} = ?`).join(' AND ');
    const stmt = this.db.prepare(`DELETE FROM ${table} WHERE ${conditions}`);
    const result = stmt.run(Object.values(where));
    this.emit(`${table}:delete`, where);
    return result;
  }
  \<close>
  \<open>softDeleteColumn\<close> is the name of the first column flagged \<^verbatim>\<open>softDelete\<close>, or \<open>None\<close> for
  \<^verbatim>\<open>undefined\<close>; the test \<^verbatim>\<open>if (softDeleteColumn)\<close> is its truthiness. The argument \<open>now\<close> is
  \<^verbatim>\<open>new Date().toISOString()\<close>.
\<close>

definition softDeleteColumn :: "TableSchema \<Rightarrow> string option" where
  "softDeleteColumn schema = map_option fst (List.find (\<lambda>(_, config). softDelete config) schema)"

definition delete_sql :: "string \<Rightarrow> row \<Rightarrow> string" where
  "delete_sql table whereObj =
     ''DELETE FROM '' @ table @ '' WHERE '' @ join '' AND '' (map (\<lambda>(key, _). key @ '' = ?'') whereObj)"

definition delete ::
  "js_runtime \<Rightarrow> 'db database \<Rightarrow> string \<Rightarrow> string \<Rightarrow> row \<Rightarrow> 'db GrokDB \<Rightarrow> (error + RunResult) \<times> 'db GrokDB" where
  "delete rt eng now table whereObj g =
     (case tables g table of
        None \<Rightarrow> (Inl (TableNotFound table), g)
      | Some schema \<Rightarrow>
          (if truthy_string (softDeleteColumn schema)
           then update rt eng table [(the (softDeleteColumn schema), VStr now)] whereObj g
           else
             (case stmt_run eng (delete_sql table whereObj) (map snd whereObj) (db g) of
                Inl e \<Rightarrow> (Inl e, g)
              | Inr (result, d) \<Rightarrow>
                  (Inr result, emit (table @ '':delete'') (VObj whereObj) (g\<lparr>db := d\<rparr>)))))"

subsection \<open>\<^verbatim>\<open>migrate\<close>\<close>

text \<open>
  \<^verbatim>\<open>
  export interface Migration {
    up: (db: GrokDB) => void;
    down: (db: GrokDB) => void;
  }
  \<close>
  A procedure receives the whole \<^verbatim>\<open>GrokDB\<close>; it leaves a state behind and either returns
  (\<open>None\<close>) or throws.
\<close>

record 'db Migration =
  up :: "'db GrokDB \<Rightarrow> error option \<times> 'db GrokDB"
  down :: "'db GrokDB \<Rightarrow> error option \<times> 'db GrokDB"

datatype MigrationDirection = Up | Down

text \<open>
  The identifiers of \<^verbatim>\<open>migrate\<close> that \<^verbatim>\<open>index.ts\<close> does not bind. The module imports
  \<^verbatim>\<open>readFileSync\<close>, \<^verbatim>\<open>writeFileSync\<close>, \<^verbatim>\<open>existsSync\<close> and \<^verbatim>\<open>mkdirSync\<close> from \<^verbatim>\<open>fs\<close>
  (line 6), and calls \<^verbatim>\<open>readdirSync\<close> (line 128): the name has no binding. Nor has
  \<^verbatim>\<open>require\<close> (line 134): the package is an ES module (\<^verbatim>\<open>"type": "module"\<close>), where
  \<^verbatim>\<open>require\<close> is not defined. A binding is \<open>Some\<close> of its value, and there is none.
\<close>

definition readdirSync :: "(string \<Rightarrow> string list) option" where
  "readdirSync = None"

definition require :: "(string \<Rightarrow> string \<Rightarrow> error + 'db Migration) option" where
  "require = None"

text \<open>
  \<^verbatim>\<open>
  const files = existsSync(this.migrationPath)
    ? readdirSync(this.migrationPath)
      .filter(f => f.endsWith('.ts') || f.endsWith('.js'))
      .sort()
    : [];
  \<close>
  \<open>existsSync\<close> is the function of \<^verbatim>\<open>fs\<close>, which the module does import. \<^verbatim>\<open>sort()\<close> without
  a comparator orders strings by their code units, which is the lexicographic order of
  \<open>string\<close>.
\<close>

definition migration_files :: "(string \<Rightarrow> bool) \<Rightarrow> string \<Rightarrow> error + string list" where
  "migration_files existsSync path =
     (if existsSync path then
        (case readdirSync of
           None \<Rightarrow> Inl (ReferenceError ''readdirSync is not defined'')
         | Some readdir \<Rightarrow>
             Inr (sort (filter (\<lambda>f. endsWith f ''.ts'' \<or> endsWith f ''.js'') (readdir path))))
      else Inr [])"

definition create_migrations_sql :: string where
  "create_migrations_sql =
     ''\<newline>      CREATE TABLE IF NOT EXISTS migrations (\<newline>        id INTEGER PRIMARY KEY,\<newline>        name TEXT NOT NULL,\<newline>        executed_at DATETIME DEFAULT CURRENT_TIMESTAMP\<newline>      )\<newline>    ''"

definition select_migration_sql :: string where
  "select_migration_sql = ''SELECT * FROM migrations WHERE name = ?''"

definition insert_migration_sql :: string where
  "insert_migration_sql = ''INSERT INTO migrations (name) VALUES (?)''"

definition delete_migration_sql :: string where
  "delete_migration_sql = ''DELETE FROM migrations WHERE name = ?''"

text \<open>
  One turn of \<^verbatim>\<open>for (const file of files)\<close>:
  \<^verbatim>\<open>
  const migration = require(join(this.migrationPath, file)).default;
  if (direction === 'up') {
    const executed = this.db.prepare('SELECT * FROM migrations WHERE name = ?').get(file);
    if (!executed) {
      migration.up(this);
      this.db.prepare('INSERT INTO migrations (name) VALUES (?)').run(file);
    }
  } else {
    const executed = this.db.prepare('SELECT * FROM migrations WHERE name = ?').get(file);
    if (executed) {
      migration.down(this);
      this.db.prepare('DELETE FROM migrations WHERE name = ?').run(file);
    }
  }
  \<close>
  A bound \<^verbatim>\<open>require\<close> would be called as \<open>load dir file\<close> for
  \<^verbatim>\<open>require(join(dir, file)).default\<close>. Besides the outcome and the state, the model returns the
  procedures it has called, in order: the file, and whether the procedure returned.
\<close>

type_synonym 'db migrate_result = "(string \<times> bool) list \<times> error option \<times> 'db GrokDB"

definition migrate_file ::
  "'db database \<Rightarrow> MigrationDirection \<Rightarrow> string \<Rightarrow> 'db GrokDB \<Rightarrow> 'db migrate_result" where
  "migrate_file eng direction file g =
     (case require of
        None \<Rightarrow> ([], Some (ReferenceError ''require is not defined''), g)
      | Some load \<Rightarrow>
     (case load (migrationPath g) file of
        Inl e \<Rightarrow> ([], Some e, g)
      | Inr migration \<Rightarrow>
          (case stmt_get eng select_migration_sql [VStr file] (db g) of
             Inl e \<Rightarrow> ([], Some e, g)
           | Inr executed \<Rightarrow>
               (if direction = Up then
                  (if executed = None then
                     (case up migration g of
                        (Some e, g') \<Rightarrow> ([(file, False)], Some e, g')
                      | (None, g') \<Rightarrow>
                          (case stmt_run eng insert_migration_sql [VStr file] (db g') of
                             Inl e \<Rightarrow> ([(file, True)], Some e, g')
                           | Inr (result, d) \<Rightarrow> ([(file, True)], None, g'\<lparr>db := d\<rparr>)))
                   else ([], None, g))
                else
                  (if executed \<noteq> None then
                     (case down migration g of
                        (Some e, g') \<Rightarrow> ([(file, False)], Some e, g')
                      | (None, g') \<Rightarrow>
                          (case stmt_run eng delete_migration_sql [VStr file] (db g') of
                             Inl e \<Rightarrow> ([(file, True)], Some e, g')
                           | Inr (result, d) \<Rightarrow> ([(file, True)], None, g'\<lparr>db := d\<rparr>)))
                   else ([], None, g))))))"

fun migrate_files ::
  "'db database \<Rightarrow> MigrationDirection \<Rightarrow> string list \<Rightarrow> 'db GrokDB \<Rightarrow> 'db migrate_result" where
  "migrate_files eng direction [] g = ([], None, g)"
| "migrate_files eng direction (file # files) g =
     (case migrate_file eng direction file g of
        (called, Some e, g') \<Rightarrow> (called, Some e, g')
      | (called, None, g') \<Rightarrow>
          (case migrate_files eng direction files g' of
             (called', outcome, g'') \<Rightarrow> (called @ called', outcome, g'')))"

text \<open>
  \<^verbatim>\<open>
  async migrate(direction: 'up' | 'down' = 'up') {
    const migrations = this.db.prepare(`CREATE TABLE IF NOT EXISTS migrations (...)`).run();
    const files = ...;
    for (const file of files) { ... }
  }
  \<close>
  The function has no \<^verbatim>\<open>await\<close>: it runs to its end or to its first exception, which
  rejects the promise it returns.
\<close>

definition migrate ::
  "'db database \<Rightarrow> (string \<Rightarrow> bool) \<Rightarrow> MigrationDirection \<Rightarrow> 'db GrokDB \<Rightarrow> 'db migrate_result" where
  "migrate eng existsSync direction g =
     (case stmt_run eng create_migrations_sql [] (db g) of
        Inl e \<Rightarrow> ([], Some e, g)
      | Inr (result, d) \<Rightarrow>
          (case migration_files existsSync (migrationPath g) of
             Inl e \<Rightarrow> ([], Some e, g\<lparr>db := d\<rparr>)
           | Inr files \<Rightarrow> migrate_files eng direction files (g\<lparr>db := d\<rparr>)))"

subsection \<open>The ledger table in the storage engine\<close>

text \<open>
  \<^verbatim>\<open>migrate\<close> keeps its ledger in the table \<^verbatim>\<open>migrations\<close> of the storage engine, through
  four statements. \<open>ledger_engine\<close> is the engine as far as these statements go: a storage
  with the rows of \<^verbatim>\<open>migrations\<close>, the engine's clock, and the rest of the storage, on
  which every other statement runs through an engine \<open>base\<close>.
  \<^item> \<^verbatim>\<open>id INTEGER PRIMARY KEY\<close>: a new row gets the largest id so far plus one;
  \<^item> \<^verbatim>\<open>executed_at DATETIME DEFAULT CURRENT_TIMESTAMP\<close>: a new row gets the clock's time;
  \<^item> \<^verbatim>\<open>name TEXT NOT NULL\<close> carries no uniqueness constraint.
\<close>

record MigrationRecord =
  mig_id :: nat
  mig_name :: string
  executed_at :: string

record 'u ledger_db =
  ledger :: "MigrationRecord list"
  clock :: string
  rest :: 'u

definition ledger_row :: "MigrationRecord \<Rightarrow> row" where
  "ledger_row r =
     [(''id'', VNum (int (mig_id r))), (''name'', VStr (mig_name r)),
      (''executed_at'', VStr (executed_at r))]"

definition next_rowid :: "MigrationRecord list \<Rightarrow> nat" where
  "next_rowid rs = Suc (fold max (map mig_id rs) 0)"

definition ledger_run ::
  "'u database \<Rightarrow> string \<Rightarrow> jsvalue list \<Rightarrow> 'u ledger_db \<Rightarrow> error + (RunResult \<times> 'u ledger_db)" where
  "ledger_run base sql params d =
     (if sql = create_migrations_sql then
        Inr (\<lparr>changes = 0, lastInsertRowid = 0\<rparr>, d)
      else if sql = insert_migration_sql then
        (case params of
           [VStr n] \<Rightarrow>
             Inr (\<lparr>changes = 1, lastInsertRowid = int (next_rowid (ledger d))\<rparr>,
                  d\<lparr>ledger := ledger d @
                     [\<lparr>mig_id = next_rowid (ledger d), mig_name = n, executed_at = clock d\<rparr>]\<rparr>)
         | _ \<Rightarrow> Inl (SqliteError ''bad parameters''))
      else if sql = delete_migration_sql then
        (case params of
           [VStr n] \<Rightarrow>
             Inr (\<lparr>changes = length (filter (\<lambda>r. mig_name r = n) (ledger d)), lastInsertRowid = 0\<rparr>,
                  d\<lparr>ledger := filter (\<lambda>r. mig_name r \<noteq> n) (ledger d)\<rparr>)
         | _ \<Rightarrow> Inl (SqliteError ''bad parameters''))
      else
        (case stmt_run base sql params (rest d) of
           Inl e \<Rightarrow> Inl e
         | Inr (result, u) \<Rightarrow> Inr (result, d\<lparr>rest := u\<rparr>)))"

definition ledger_all ::
  "'u database \<Rightarrow> string \<Rightarrow> jsvalue list \<Rightarrow> 'u ledger_db \<Rightarrow> error + row list" where
  "ledger_all base sql params d =
     (if sql = select_migration_sql then
        (case params of
           [VStr n] \<Rightarrow> Inr (map ledger_row (filter (\<lambda>r. mig_name r = n) (ledger d)))
         | _ \<Rightarrow> Inl (SqliteError ''bad parameters''))
      else stmt_all base sql params (rest d))"

definition ledger_engine :: "'u database \<Rightarrow> 'u ledger_db database" where
  "ledger_engine base = \<lparr>stmt_run = ledger_run base, stmt_all = ledger_all base\<rparr>"

text \<open>The names in the ledger of a state, oldest row first.\<close>

definition ledger_names :: "'u ledger_db GrokDB \<Rightarrow> string list" where
  "ledger_names g = map mig_name (ledger (db g))"

section \<open>A reference runtime\<close>

text \<open>
  The theorems below hold for every runtime and every engine. To run the model on concrete
  inputs, this section gives one runtime: \<^verbatim>\<open>JSON.stringify\<close> and \<^verbatim>\<open>JSON.parse\<close> on the values of
  \<open>jsvalue\<close> (numbers are integers; a literal with a fraction or an exponent is not read),
  and a stand-in for the cipher, which is not AES.
\<close>

subsection \<open>\<^verbatim>\<open>JSON.stringify\<close>\<close>

definition quote_char :: char where
  "quote_char = CHR 0x22"

definition backslash :: char where
  "backslash = CHR 0x5C"

definition hex_digit :: "nat \<Rightarrow> char" where
  "hex_digit n = ''0123456789abcdef'' ! (n mod 16)"

definition escape_char :: "char \<Rightarrow> string" where
  "escape_char c =
     (if c = quote_char then [backslash, quote_char]
      else if c = backslash then [backslash, backslash]
      else if c = CHR 0x08 then [backslash, CHR ''b'']
      else if c = CHR 0x0C then [backslash, CHR ''f'']
      else if c = CHR 0x0A then [backslash, CHR ''n'']
      else if c = CHR 0x0D then [backslash, CHR ''r'']
      else if c = CHR 0x09 then [backslash, CHR ''t'']
      else if (of_char c :: nat) < 32 then
        [backslash, CHR ''u'', CHR ''0'', CHR ''0'',
         hex_digit ((of_char c :: nat) div 16), hex_digit (of_char c :: nat)]
      else [c])"

definition quote :: "string \<Rightarrow> string" where
  "quote s = quote_char # concat (map escape_char s) @ [quote_char]"

fun stringify :: "jsvalue \<Rightarrow> string"
  and stringify_elements :: "jsvalue list \<Rightarrow> string"
  and stringify_members :: "(string \<times> jsvalue) list \<Rightarrow> string"
  and stringify_member :: "string \<times> jsvalue \<Rightarrow> string" where
  "stringify VNull = ''null''"
| "stringify (VBool b) = (if b then ''true'' else ''false'')"
| "stringify (VNum n) = show_int n"
| "stringify (VStr s) = quote s"
| "stringify (VArr vs) = CHR ''['' # stringify_elements vs @ '']''"
| "stringify (VObj ms) = CHR ''{'' # stringify_members ms @ ''}''"
| "stringify_elements [] = []"
| "stringify_elements [v] = stringify v"
| "stringify_elements (v # w # vs) = stringify v @ CHR '','' # stringify_elements (w # vs)"
| "stringify_members [] = []"
| "stringify_members [m] = stringify_member m"
| "stringify_members (m # n # ms) = stringify_member m @ CHR '','' # stringify_members (n # ms)"
| "stringify_member (k, v) = quote k @ CHR '':'' # stringify v"

subsection \<open>\<^verbatim>\<open>JSON.parse\<close>\<close>

definition is_ws :: "char \<Rightarrow> bool" where
  "is_ws c = (c = CHR '' '' \<or> c = CHR 0x09 \<or> c = CHR 0x0A \<or> c = CHR 0x0D)"

definition skip_ws :: "string \<Rightarrow> string" where
  "skip_ws s = dropWhile is_ws s"

definition is_digit :: "char \<Rightarrow> bool" where
  "is_digit c = (CHR ''0'' \<le> c \<and> c \<le> CHR ''9'')"

definition digit_val :: "char \<Rightarrow> nat" where
  "digit_val c = of_char c - 48"

definition hex_val :: "char \<Rightarrow> nat option" where
  "hex_val c =
     (if CHR ''0'' \<le> c \<and> c \<le> CHR ''9'' then Some (of_char c - 48)
      else if CHR ''a'' \<le> c \<and> c \<le> CHR ''f'' then Some (of_char c - 87)
      else if CHR ''A'' \<le> c \<and> c \<le> CHR ''F'' then Some (of_char c - 55)
      else None)"

fun read_digits :: "nat \<Rightarrow> string \<Rightarrow> nat \<times> string" where
  "read_digits acc [] = (acc, [])"
| "read_digits acc (c # cs) =
     (if is_digit c then read_digits (acc * 10 + digit_val c) cs else (acc, c # cs))"

text \<open>An unsigned integer literal: \<^verbatim>\<open>0\<close>, or digits that do not start with \<^verbatim>\<open>0\<close>.\<close>

definition parse_unsigned :: "string \<Rightarrow> (nat \<times> string) option" where
  "parse_unsigned s =
     (case s of
        [] \<Rightarrow> None
      | c # cs \<Rightarrow>
          if \<not> is_digit c then None
          else if c = CHR ''0'' then
            (case cs of
               [] \<Rightarrow> Some (0, [])
             | d # ds \<Rightarrow> if is_digit d then None else Some (0, cs))
          else Some (read_digits 0 s))"

definition parse_number :: "string \<Rightarrow> (jsvalue \<times> string) option" where
  "parse_number s =
     (case (case s of
              [] \<Rightarrow> None
            | c # cs \<Rightarrow>
                if c = CHR ''-'' then map_option (\<lambda>(n, r). (- int n, r)) (parse_unsigned cs)
                else map_option (\<lambda>(n, r). (int n, r)) (parse_unsigned s)) of
        None \<Rightarrow> None
      | Some (i, r) \<Rightarrow>
          (case r of
             [] \<Rightarrow> Some (VNum i, r)
           | c # cs \<Rightarrow>
               if c = CHR ''.'' \<or> c = CHR ''e'' \<or> c = CHR ''E'' then None else Some (VNum i, r)))"

text \<open>What a backslash and the character \<open>e\<close> stand for, \<^verbatim>\<open>\u\<close> apart.\<close>

definition unescape :: "char \<Rightarrow> char option" where
  "unescape e =
     (if e = quote_char then Some quote_char
      else if e = backslash then Some backslash
      else if e = CHR ''/'' then Some (CHR ''/'')
      else if e = CHR ''b'' then Some (CHR 0x08)
      else if e = CHR ''f'' then Some (CHR 0x0C)
      else if e = CHR ''n'' then Some (CHR 0x0A)
      else if e = CHR ''r'' then Some (CHR 0x0D)
      else if e = CHR ''t'' then Some (CHR 0x09)
      else None)"

text \<open>\<^verbatim>\<open>\uXXXX\<close>, for the code points a \<open>char\<close> holds.\<close>

definition unicode_escape :: "char \<Rightarrow> char \<Rightarrow> char \<Rightarrow> char \<Rightarrow> char option" where
  "unicode_escape h1 h2 h3 h4 =
     (case (hex_val h1, hex_val h2, hex_val h3, hex_val h4) of
        (Some a, Some b, Some c, Some d) \<Rightarrow>
          if a = 0 \<and> b = 0 then Some (char_of (c * 16 + d)) else None
      | _ \<Rightarrow> None)"

text \<open>The characters of a string literal after its opening quote, up to the closing one.\<close>

fun parse_chars :: "string \<Rightarrow> (string \<times> string) option" where
  "parse_chars [] = None"
| "parse_chars (c # cs) =
     (if c = quote_char then Some ([], cs)
      else if c = backslash then
        (case cs of
           [] \<Rightarrow> None
         | e # r \<Rightarrow>
             if e = CHR ''u'' then
               (case r of
                  h1 # h2 # h3 # h4 # t \<Rightarrow>
                    (case unicode_escape h1 h2 h3 h4 of
                       None \<Rightarrow> None
                     | Some ch \<Rightarrow> map_option (\<lambda>(str, rest). (ch # str, rest)) (parse_chars t))
                | _ \<Rightarrow> None)
             else
               (case unescape e of
                  None \<Rightarrow> None
                | Some ch \<Rightarrow> map_option (\<lambda>(str, rest). (ch # str, rest)) (parse_chars r)))
      else if (of_char c :: nat) < 32 then None
      else map_option (\<lambda>(str, rest). (c # str, rest)) (parse_chars cs))"

text \<open>
  The parser descends with a bound: \<open>parse_value n\<close> reads a value in at most \<open>n\<close> nested
  calls, and \<open>parse_json\<close> starts it with the length of the text. That bound is enough for
  every text that \<open>stringify\<close> writes (lemma \<open>parse_json_stringify\<close> below).
\<close>

fun parse_value :: "nat \<Rightarrow> string \<Rightarrow> (jsvalue \<times> string) option"
  and parse_elements :: "nat \<Rightarrow> string \<Rightarrow> (jsvalue list \<times> string) option"
  and parse_members :: "nat \<Rightarrow> string \<Rightarrow> ((string \<times> jsvalue) list \<times> string) option" where
  "parse_value 0 s = None"
| "parse_value (Suc n) s =
     (case skip_ws s of
        [] \<Rightarrow> None
      | c # cs \<Rightarrow>
          if c = CHR ''n'' then (if take 3 cs = ''ull'' then Some (VNull, drop 3 cs) else None)
          else if c = CHR ''t'' then (if take 3 cs = ''rue'' then Some (VBool True, drop 3 cs) else None)
          else if c = CHR ''f'' then (if take 4 cs = ''alse'' then Some (VBool False, drop 4 cs) else None)
          else if c = quote_char then map_option (\<lambda>(str, r). (VStr str, r)) (parse_chars cs)
          else if c = CHR ''['' then
            (case skip_ws cs of
               [] \<Rightarrow> None
             | d # r \<Rightarrow>
                 if d = CHR '']'' then Some (VArr [], r)
                 else map_option (\<lambda>(vs, t). (VArr vs, t)) (parse_elements n cs))
          else if c = CHR ''{'' then
            (case skip_ws cs of
               [] \<Rightarrow> None
             | d # r \<Rightarrow>
                 if d = CHR ''}'' then Some (VObj [], r)
                 else map_option (\<lambda>(ms, t). (VObj ms, t)) (parse_members n cs))
          else parse_number (c # cs))"
| "parse_elements 0 s = None"
| "parse_elements (Suc n) s =
     (case parse_value n s of
        None \<Rightarrow> None
      | Some (v, r) \<Rightarrow>
          (case skip_ws r of
             [] \<Rightarrow> None
           | c # t \<Rightarrow>
               if c = CHR '','' then map_option (\<lambda>(vs, u). (v # vs, u)) (parse_elements n t)
               else if c = CHR '']'' then Some ([v], t)
               else None))"
| "parse_members 0 s = None"
| "parse_members (Suc n) s =
     (case skip_ws s of
        [] \<Rightarrow> None
      | q # s1 \<Rightarrow>
          if q \<noteq> quote_char then None
          else
            (case parse_chars s1 of
               None \<Rightarrow> None
             | Some (k, r) \<Rightarrow>
                 (case skip_ws r of
                    [] \<Rightarrow> None
                  | c # r1 \<Rightarrow>
                      if c \<noteq> CHR '':'' then None
                      else
                        (case parse_value n r1 of
                           None \<Rightarrow> None
                         | Some (v, r2) \<Rightarrow>
                             (case skip_ws r2 of
                                [] \<Rightarrow> None
                              | d # r3 \<Rightarrow>
                                  if d = CHR '','' then
                                    map_option (\<lambda>(ms, t). ((k, v) # ms, t)) (parse_members n r3)
                                  else if d = CHR ''}'' then Some ([(k, v)], r3)
                                  else None)))))"

definition parse_json :: "string \<Rightarrow> error + jsvalue" where
  "parse_json s =
     (case parse_value (Suc (length s)) s of
        None \<Rightarrow> Inl (SyntaxError ''Unexpected token'')
      | Some (v, r) \<Rightarrow>
          if skip_ws r = [] then Inr v else Inl (SyntaxError ''Unexpected token''))"

subsection \<open>Measures of the parser\<close>

text \<open>
  The bound that \<open>parse_value\<close> needs to read a value back, the texts that may follow a
  number, and the characters a serialised value may start with.
\<close>

fun cost :: "jsvalue \<Rightarrow> nat"
  and cost_elements :: "jsvalue list \<Rightarrow> nat"
  and cost_members :: "(string \<times> jsvalue) list \<Rightarrow> nat" where
  "cost (VArr vs) = Suc (cost_elements vs)"
| "cost (VObj ms) = Suc (cost_members ms)"
| "cost v = 1"
| "cost_elements [] = 0"
| "cost_elements (v # vs) = Suc (max (cost v) (cost_elements vs))"
| "cost_members [] = 0"
| "cost_members ((k, v) # ms) = Suc (max (cost v) (cost_members ms))"

definition stops_number :: "string \<Rightarrow> bool" where
  "stops_number r = (case r of [] \<Rightarrow> True | c # cs \<Rightarrow> c = CHR '','' \<or> c = CHR '']'' \<or> c = CHR ''}'')"

definition starts_value :: "char \<Rightarrow> bool" where
  "starts_value c = (\<not> is_ws c \<and> c \<noteq> CHR '']'' \<and> c \<noteq> CHR ''}'' \<and> c \<noteq> CHR '','')"

subsection \<open>The stand-in cipher\<close>

text \<open>
  \<^verbatim>\<open>CryptoJS.AES.encrypt(value, key).toString()\<close> is a text that starts with
  \<^verbatim>\<open>U2FsdGVkX1\<close> (the header \<^verbatim>\<open>Salted__\<close> in base 64). The stand-in keeps that header and
  shifts each character of the text by the matching character of the key, taken cyclically;
  its decryption throws for a text without the header.
\<close>

definition cipher_header :: string where
  "cipher_header = ''U2FsdGVkX1''"

fun shift_chars :: "(nat \<Rightarrow> nat \<Rightarrow> nat) \<Rightarrow> string \<Rightarrow> nat \<Rightarrow> string \<Rightarrow> string" where
  "shift_chars f key i [] = []"
| "shift_chars f key i (c # cs) =
     char_of (f (of_char c) (of_char (key ! (i mod length key)))) # shift_chars f key (Suc i) cs"

definition standin_encrypt :: "string \<Rightarrow> string \<Rightarrow> string" where
  "standin_encrypt value key = cipher_header @ shift_chars (\<lambda>c k. c + k) key 0 value"

definition standin_decrypt :: "string \<Rightarrow> string \<Rightarrow> error + string" where
  "standin_decrypt value key =
     (if take (length cipher_header) value = cipher_header
      then Inr (shift_chars (\<lambda>c k. c + 256 - k) key 0 (drop (length cipher_header) value))
      else Inl (CryptoError ''Malformed UTF-8 data''))"

definition reference_runtime :: js_runtime where
  "reference_runtime =
     \<lparr>json_parse = parse_json, json_stringify = stringify,
      aes_encrypt = standin_encrypt, aes_decrypt = standin_decrypt\<rparr>"

subsection \<open>An engine that records its statements\<close>

text \<open>
  The storage of \<open>recording_engine\<close> is the list of the statements run so far, each with its
  parameters, and the rows that every query returns.
\<close>

record recording_db =
  statements :: "(string \<times> jsvalue list) list"
  answer :: "row list"

definition recording_engine :: "recording_db database" where
  "recording_engine =
     \<lparr>stmt_run = (\<lambda>sql params d.
         Inr (\<lparr>changes = 1, lastInsertRowid = int (Suc (length (statements d)))\<rparr>,
              d\<lparr>statements := statements d @ [(sql, params)]\<rparr>)),
      stmt_all = (\<lambda>sql params d. Inr (answer d))\<rparr>"

section \<open>What the claims speak about\<close>

text \<open>Writing a value to a column and reading it back: \<^verbatim>\<open>decode(encode(v))\<close>.\<close>

definition decode_encode ::
  "js_runtime \<Rightarrow> string option \<Rightarrow> ColumnDefinition \<Rightarrow> jsvalue \<Rightarrow> error + jsvalue" where
  "decode_encode rt key config v =
     (case processValue rt key v config of
        Inl e \<Rightarrow> Inl e
      | Inr encoded \<Rightarrow> unprocessValue rt key encoded config)"

text \<open>The events an operation has published: those of \<open>g'\<close> that \<open>g\<close> did not have yet.\<close>

definition published :: "'db GrokDB \<Rightarrow> 'db GrokDB \<Rightarrow> (string \<times> jsvalue) list" where
  "published g g' = drop (length (emitted g)) (emitted g')"

text \<open>A validator that lets every payload pass.\<close>

definition accept_all :: ZodSchema where
  "accept_all = \<lparr>parse = (\<lambda>data. None), partial_parse = (\<lambda>data. None)\<rparr>"

subsection \<open>The objects of the test suite\<close>

text \<open>
  The table \<^verbatim>\<open>users\<close> of \<^verbatim>\<open>grokdb.tests.ts\<close>, its key, and its validator as far as the
  fields \<^verbatim>\<open>email\<close> and \<^verbatim>\<open>password\<close> go: \<^verbatim>\<open>email\<close> is a string, \<^verbatim>\<open>password\<close> a string of at
  least eight characters; \<^verbatim>\<open>partial()\<close> makes both optional.
\<close>

definition users_schema :: TableSchema where
  "users_schema =
     [(''id'', (column INTEGER)\<lparr>primary := True\<rparr>),
      (''email'', (column TEXT)\<lparr>unique := True, index := True\<rparr>),
      (''password'', (column TEXT)\<lparr>encrypted := True\<rparr>),
      (''settings'', (column TEXT)\<lparr>json := True\<rparr>),
      (''deleted_at'', (column DATETIME)\<lparr>softDelete := True\<rparr>),
      (''age'', (column INTEGER)\<lparr>default := Some (VNum 0)\<rparr>)]"

definition ENCRYPTION_KEY :: string where
  "ENCRYPTION_KEY = ''test-secret-key''"

definition check_email :: "jsvalue option \<Rightarrow> bool \<Rightarrow> error option" where
  "check_email v optional =
     (case v of
        None \<Rightarrow> if optional then None else Some (ValidationError ''email: Required'')
      | Some (VStr s) \<Rightarrow> None
      | Some _ \<Rightarrow> Some (ValidationError ''email: Expected string''))"

definition check_password :: "jsvalue option \<Rightarrow> bool \<Rightarrow> error option" where
  "check_password v optional =
     (case v of
        None \<Rightarrow> if optional then None else Some (ValidationError ''password: Required'')
      | Some (VStr s) \<Rightarrow>
          if 8 \<le> length s then None
          else Some (ValidationError ''password: String must contain at least 8 character(s)'')
      | Some _ \<Rightarrow> Some (ValidationError ''password: Expected string''))"

definition check_user :: "bool \<Rightarrow> row \<Rightarrow> error option" where
  "check_user optional data =
     (case check_email (map_of data ''email'') optional of
        Some e \<Rightarrow> Some e
      | None \<Rightarrow> check_password (map_of data ''password'') optional)"

definition userSchema :: ZodSchema where
  "userSchema = \<lparr>parse = check_user False, partial_parse = check_user True\<rparr>"

text \<open>The state after \<^verbatim>\<open>beforeEach\<close>, on the recording engine, with nothing stored yet.\<close>

definition test_db :: "recording_db GrokDB" where
  "test_db =
     \<lparr>db = \<lparr>statements = [], answer = []\<rparr>,
      tables = [''users'' \<mapsto> users_schema],
      encryptionKey = Some ENCRYPTION_KEY,
      validators = [''users'' \<mapsto> userSchema],
      migrationPath = ''./migrations'',
      emitted = []\<rparr>"

text \<open>
  A table whose soft-delete column is not called \<^verbatim>\<open>deleted_at\<close>, and a table without one;
  neither has a validator.
\<close>

definition archive_schema :: TableSchema where
  "archive_schema =
     [(''id'', (column INTEGER)\<lparr>primary := True\<rparr>),
      (''title'', column TEXT),
      (''removed_at'', (column DATETIME)\<lparr>softDelete := True\<rparr>)]"

definition notes_schema :: TableSchema where
  "notes_schema =
     [(''id'', (column INTEGER)\<lparr>primary := True\<rparr>),
      (''body'', column TEXT)]"

definition archive_db :: "recording_db GrokDB" where
  "archive_db =
     \<lparr>db = \<lparr>statements = [], answer = []\<rparr>,
      tables = [''archive'' \<mapsto> archive_schema, ''notes'' \<mapsto> notes_schema],
      encryptionKey = None,
      validators = Map.empty,
      migrationPath = ''./migrations'',
      emitted = []\<rparr>"

text \<open>
  The file system after the constructor, which creates the migration directory when it is
  missing; a fresh storage; and a storage whose ledger holds one applied unit.
\<close>

definition test_existsSync :: "string \<Rightarrow> bool" where
  "test_existsSync path = (path = ''./migrations'')"

definition fresh_db :: "recording_db ledger_db GrokDB" where
  "fresh_db =
     \<lparr>db = \<lparr>ledger = [], clock = ''2024-03-02 10:00:00'', rest = \<lparr>statements = [], answer = []\<rparr>\<rparr>,
      tables = Map.empty,
      encryptionKey = None,
      validators = Map.empty,
      migrationPath = ''./migrations'',
      emitted = []\<rparr>"

definition applied_db :: "recording_db ledger_db GrokDB" where
  "applied_db =
     \<lparr>db = \<lparr>ledger = [\<lparr>mig_id = 1, mig_name = ''20240224_add_user_settings.ts'',
                         executed_at = ''2024-02-24 09:00:00''\<rparr>],
             clock = ''2024-03-02 10:00:00'', rest = \<lparr>statements = [], answer = []\<rparr>\<rparr>,
      tables = Map.empty,
      encryptionKey = None,
      validators = Map.empty,
      migrationPath = ''./migrations'',
      emitted = []\<rparr>"

section \<open>The field codec\<close>

lemma processValue_json_ignores_encrypted:
  "json config \<Longrightarrow>
     processValue rt key v config = processValue rt key v (config\<lparr>encrypted := False\<rparr>)"
  by (cases v) (simp_all add: processValue_def)

lemma unprocessValue_json_ignores_encrypted:
  "json config \<Longrightarrow>
     unprocessValue rt key v config = unprocessValue rt key v (config\<lparr>encrypted := False\<rparr>)"
  by (cases v) (simp_all add: unprocessValue_def)

text \<open>
  C2 (both flags set: serialise, then encrypt; decrypt, then parse). The code returns from
  the \<^verbatim>\<open>json\<close> branch before it reaches the \<^verbatim>\<open>encrypted\<close> one, in both directions (the two
  lemmas above: on a \<^verbatim>\<open>json\<close> column the flag \<^verbatim>\<open>encrypted\<close> changes nothing). At the column
  \<^verbatim>\<open>{ type: 'TEXT', json: true, encrypted: true }\<close> with the key of the tests, the object
  \<^verbatim>\<open>{ theme: 'dark' }\<close> is stored as its readable JSON text, and reading the ciphertext of
  that text back hands the ciphertext to \<^verbatim>\<open>JSON.parse\<close>, which throws.
\<close>

theorem json_encrypted_column_stores_plain_json:
  \<open>processValue reference_runtime (Some ENCRYPTION_KEY) (VObj [(''theme'', VStr ''dark'')])
       ((column TEXT)\<lparr>json := True, encrypted := True\<rparr>)
     = Inr (VStr ''{"theme":"dark"}'')
   \<and> unprocessValue reference_runtime (Some ENCRYPTION_KEY)
       (VStr (standin_encrypt ''{"theme":"dark"}'' ENCRYPTION_KEY))
       ((column TEXT)\<lparr>json := True, encrypted := True\<rparr>)
     = Inl (SyntaxError ''Unexpected token'')\<close>
  by code_simp

lemma decode_survives_failed_decryption:
  assumes "\<not> json config" "aes_decrypt rt s k = Inl e"
  shows "unprocessValue rt (Some k) (VStr s) config = Inr (VStr s)"
  using assms by (simp add: unprocessValue_def)

lemma encode_raises_what_the_parser_raises:
  "processValue rt key v config = Inl e \<longleftrightarrow>
     (\<exists>s. v = VStr s \<and> json config \<and> json_parse rt s = Inl e)"
  by (cases v) (auto simp: processValue_def)

text \<open>
  C3 (a failure of decryption or of JSON parsing during decode returns the value as it is
  stored). Only \<^verbatim>\<open>CryptoJS.AES.decrypt\<close> stands in a \<^verbatim>\<open>try\<close>; \<^verbatim>\<open>JSON.parse\<close> does not. Reading
  the text \<^verbatim>\<open>not json\<close> from a \<^verbatim>\<open>json\<close> column throws the parser's \<^verbatim>\<open>SyntaxError\<close>.
\<close>

theorem decode_raises_on_malformed_json:
  "unprocessValue reference_runtime None (VStr ''not json'') ((column TEXT)\<lparr>json := True\<rparr>)
     = Inl (SyntaxError ''Unexpected token'')"
  by code_simp

text \<open>
  C4, as the claim states it, fails for a string: on a \<^verbatim>\<open>json\<close> column the string \<^verbatim>\<open>1\<close> is
  parsed when it is written, and comes back as the number 1.
\<close>

theorem json_string_does_not_round_trip:
  "decode_encode reference_runtime None ((column TEXT)\<lparr>json := True\<rparr>) (VStr ''1'') = Inr (VNum 1)
   \<and> decode_encode reference_runtime None ((column TEXT)\<lparr>json := True\<rparr>) (VStr ''1'')
       \<noteq> Inr (VStr ''1'')"
  by code_simp

text \<open>
  C4, amended: for every column with \<^verbatim>\<open>json = true\<close> and every value \<open>v\<close> that is not a string
  and that \<^verbatim>\<open>JSON.parse(JSON.stringify(v))\<close> gives back, \<^verbatim>\<open>decode(encode(v))\<close> is \<open>v\<close>.
\<close>

theorem json_round_trip:
  assumes "json config" "\<not> is_string v" "json_parse rt (json_stringify rt v) = Inr v"
  shows "decode_encode rt key config v = Inr v"
  using assms by (cases v) (simp_all add: decode_encode_def processValue_def unprocessValue_def)

theorem json_round_trip_witness:
  "decode_encode reference_runtime (Some ENCRYPTION_KEY) ((column TEXT)\<lparr>json := True\<rparr>)
     (VObj [(''theme'', VStr ''dark''), (''tabs'', VArr [VNum 2, VNull, VBool True, VObj []])])
   = Inr (VObj [(''theme'', VStr ''dark''), (''tabs'', VArr [VNum 2, VNull, VBool True, VObj []])])"
proof -
  let ?v = "VObj [(''theme'', VStr ''dark''), (''tabs'', VArr [VNum 2, VNull, VBool True, VObj []])]"
  have j: "json ((column TEXT)\<lparr>json := True\<rparr>)" by simp
  have s: "\<not> is_string ?v" by simp
  have p: "json_parse reference_runtime (json_stringify reference_runtime ?v) = Inr ?v"
    by code_simp
  show ?thesis by (rule json_round_trip [OF j s p])
qed

text \<open>
  On a column that is \<^verbatim>\<open>encrypted\<close> and not \<^verbatim>\<open>json\<close>, a string comes back as it was written
  when a key is configured and the cipher decrypts what it has encrypted, and is stored as
  it is when no key is configured (none, or the empty one).
\<close>

lemma encrypted_round_trip:
  assumes "encrypted config" "\<not> json config"
  shows "(truthy_string key \<and> aes_decrypt rt (aes_encrypt rt s (the key)) (the key) = Inr s
            \<longrightarrow> decode_encode rt key config (VStr s) = Inr (VStr s))
       \<and> (\<not> truthy_string key \<longrightarrow> processValue rt key (VStr s) config = Inr (VStr s))"
  using assms by (simp add: decode_encode_def processValue_def unprocessValue_def)

lemma encrypted_round_trip_example:
  "decode_encode reference_runtime (Some ENCRYPTION_KEY) ((column TEXT)\<lparr>encrypted := True\<rparr>)
     (VStr ''secret123'') = Inr (VStr ''secret123'')
   \<and> processValue reference_runtime None (VStr ''secret123'') ((column TEXT)\<lparr>encrypted := True\<rparr>)
     = Inr (VStr ''secret123'')"
proof -
  let ?c = "(column TEXT)\<lparr>encrypted := True\<rparr>"
  have e: "encrypted ?c" by simp
  have j: "\<not> json ?c" by (simp add: column_def)
  have k: "truthy_string (Some ENCRYPTION_KEY)" by (simp add: ENCRYPTION_KEY_def)
  have n: "\<not> truthy_string None" by simp
  have d: "aes_decrypt reference_runtime
             (aes_encrypt reference_runtime ''secret123'' (the (Some ENCRYPTION_KEY)))
             (the (Some ENCRYPTION_KEY)) = Inr ''secret123''"
    by code_simp
  from encrypted_round_trip [OF e j, of "Some ENCRYPTION_KEY" reference_runtime "''secret123''"] k d
  have "decode_encode reference_runtime (Some ENCRYPTION_KEY) ?c (VStr ''secret123'')
          = Inr (VStr ''secret123'')" by blast
  moreover from encrypted_round_trip [OF e j, of None reference_runtime "''secret123''"] n
  have "processValue reference_runtime None (VStr ''secret123'') ?c = Inr (VStr ''secret123'')"
    by blast
  ultimately show ?thesis by blast
qed

text \<open>
  C5 (for every column with \<^verbatim>\<open>encrypted = true\<close> and every string \<open>s\<close>: with a key,
  \<^verbatim>\<open>decode(encode(s))\<close> is \<open>s\<close>; with no key, \<^verbatim>\<open>encode(s)\<close> is \<open>s\<close>). On a column that is
  \<^verbatim>\<open>json\<close> as well, \<^verbatim>\<open>processValue\<close> returns from the \<^verbatim>\<open>json\<close> branch, where it hands a string
  to \<^verbatim>\<open>JSON.parse\<close>, and never reaches the \<^verbatim>\<open>encrypted\<close> branch. With no key, writing the
  password \<^verbatim>\<open>secret123\<close> throws the parser's \<^verbatim>\<open>SyntaxError\<close> and writing the string \<^verbatim>\<open>1\<close> gives
  the number 1; with the key of the tests, the string \<^verbatim>\<open>1\<close> comes back as the number 1.
\<close>

theorem encrypted_json_column_changes_string:
  "processValue reference_runtime None (VStr ''secret123'')
       ((column TEXT)\<lparr>encrypted := True, json := True\<rparr>)
     = Inl (SyntaxError ''Unexpected token'')
   \<and> processValue reference_runtime None (VStr ''1'') ((column TEXT)\<lparr>encrypted := True, json := True\<rparr>)
     = Inr (VNum 1)
   \<and> decode_encode reference_runtime (Some ENCRYPTION_KEY)
       ((column TEXT)\<lparr>encrypted := True, json := True\<rparr>) (VStr ''1'')
     = Inr (VNum 1)"
  by code_simp

section \<open>Soft delete\<close>

text \<open>
  C1 (for a soft-delete column of any name, \<^verbatim>\<open>delete\<close> stamps that column and a default
  \<^verbatim>\<open>find\<close> adds the predicate on that column). \<^verbatim>\<open>delete\<close> does take the column from the
  schema, but \<^verbatim>\<open>find\<close> writes the fixed text \<^verbatim>\<open>deleted_at IS NULL\<close>. On the table \<^verbatim>\<open>archive\<close>,
  whose soft-delete column is \<^verbatim>\<open>removed_at\<close>, \<^verbatim>\<open>delete\<close> runs an update of \<^verbatim>\<open>removed_at\<close>, and the
  default \<^verbatim>\<open>find\<close> filters on \<^verbatim>\<open>deleted_at\<close>, a column the table does not have.
\<close>

theorem find_filters_on_deleted_at: 
  "statements (db (snd (delete reference_runtime recording_engine ''2024-03-02T10:00:00.000Z''
       ''archive'' [(''id'', VNum 1)] archive_db)))
     = [(''UPDATE archive SET removed_at = ? WHERE id = ?'', [VStr ''2024-03-02T10:00:00.000Z'', VNum 1])]
   \<and> find_query ''archive'' archive_schema [(''id'', VNum 1)] no_options
     = ''SELECT * FROM archive WHERE deleted_at IS NULL AND id = ?''"
  by code_simp

lemma find_SomeD: "List.find P xs = Some x \<Longrightarrow> x \<in> set xs \<and> P x"
  by (induction xs) (auto split: if_splits)

lemma softDeleteColumn_truthy:
  assumes "hasSoftDelete schema" "\<forall>(k, c) \<in> set schema. k \<noteq> []"
  shows "truthy_string (softDeleteColumn schema)"
proof -
  from assms(1) obtain x where "List.find (\<lambda>(_, config). softDelete config) schema = Some x"
    by (cases "List.find (\<lambda>(_, config). softDelete config) schema")
       (auto simp: hasSoftDelete_def list_ex_iff find_None_iff)
  moreover from this have "x \<in> set schema" by (auto dest: find_SomeD)
  ultimately show ?thesis using assms(2) by (auto simp: softDeleteColumn_def)
qed

lemma softDeleteColumn_none:
  assumes "\<not> hasSoftDelete schema"
  shows "softDeleteColumn schema = None"
  using assms by (auto simp: hasSoftDelete_def list_ex_iff softDeleteColumn_def find_None_iff)

lemma update_published:
  "published g (snd (update rt eng table data whereObj g))
     = (case fst (update rt eng table data whereObj g) of
          Inr result \<Rightarrow> [(table @ '':update'', VObj [(''where'', VObj whereObj), (''data'', VObj data)])]
        | Inl e \<Rightarrow> [])"
  by (auto simp: update_def published_def emit_def split: option.splits sum.splits prod.splits)

text \<open>
  C9: for a table whose schema declares a soft-delete column, \<^verbatim>\<open>delete\<close> is the call of
  \<^verbatim>\<open>update\<close> that stamps the column, so what it publishes is the event
  \<^verbatim>\<open><table>:update\<close> of that call when the call returns, and nothing when it throws; it never
  publishes \<^verbatim>\<open><table>:delete\<close>. For a table without one, \<^verbatim>\<open>delete\<close> publishes
  \<^verbatim>\<open><table>:delete\<close> exactly when the \<^verbatim>\<open>DELETE\<close> statement has run. So \<^verbatim>\<open><table>:delete\<close> is
  published only when the table has no soft-delete column and the statement was issued.
  Column names are taken to be non-empty: \<^verbatim>\<open>if (softDeleteColumn)\<close> tests the name for
  truthiness, which the empty name fails.
\<close>

theorem soft_delete_events:
  assumes t: "tables g table = Some schema" and names: "\<forall>(k, c) \<in> set schema. k \<noteq> []"
  shows "(hasSoftDelete schema \<longrightarrow>
            (\<exists>c. softDeleteColumn schema = Some c
               \<and> delete rt eng now table whereObj g = update rt eng table [(c, VStr now)] whereObj g
               \<and> published g (snd (delete rt eng now table whereObj g))
                   = (case fst (delete rt eng now table whereObj g) of
                        Inr result \<Rightarrow>
                          [(table @ '':update'',
                            VObj [(''where'', VObj whereObj), (''data'', VObj [(c, VStr now)])])]
                      | Inl e \<Rightarrow> [])))
       \<and> (\<not> hasSoftDelete schema \<longrightarrow>
            published g (snd (delete rt eng now table whereObj g))
              = (case stmt_run eng (delete_sql table whereObj) (map snd whereObj) (db g) of
                   Inr result \<Rightarrow> [(table @ '':delete'', VObj whereObj)]
                 | Inl e \<Rightarrow> []))
       \<and> ((table @ '':delete'', payload) \<in> set (published g (snd (delete rt eng now table whereObj g)))
            \<longrightarrow> \<not> hasSoftDelete schema
               \<and> (\<exists>result d. stmt_run eng (delete_sql table whereObj) (map snd whereObj) (db g)
                                 = Inr (result, d)))"
proof -
  have soft: "\<exists>c. softDeleteColumn schema = Some c
               \<and> delete rt eng now table whereObj g = update rt eng table [(c, VStr now)] whereObj g
               \<and> published g (snd (delete rt eng now table whereObj g))
                   = (case fst (delete rt eng now table whereObj g) of
                        Inr result \<Rightarrow>
                          [(table @ '':update'',
                            VObj [(''where'', VObj whereObj), (''data'', VObj [(c, VStr now)])])]
                      | Inl e \<Rightarrow> [])" if h: "hasSoftDelete schema"
  proof -
    from softDeleteColumn_truthy[OF h names] obtain c where
      c: "softDeleteColumn schema = Some c" "c \<noteq> []"
      by (cases "softDeleteColumn schema") auto
    with t have d: "delete rt eng now table whereObj g = update rt eng table [(c, VStr now)] whereObj g"
      by (simp add: delete_def)
    from c d show ?thesis by (simp add: update_published)
  qed
  have hard: "published g (snd (delete rt eng now table whereObj g))
              = (case stmt_run eng (delete_sql table whereObj) (map snd whereObj) (db g) of
                   Inr result \<Rightarrow> [(table @ '':delete'', VObj whereObj)]
                 | Inl e \<Rightarrow> [])" if h: "\<not> hasSoftDelete schema"
    using t softDeleteColumn_none[OF h]
    by (auto simp: delete_def published_def emit_def split: sum.splits)
  have only: "\<not> hasSoftDelete schema
               \<and> (\<exists>result d. stmt_run eng (delete_sql table whereObj) (map snd whereObj) (db g)
                                 = Inr (result, d))"
    if p: "(table @ '':delete'', payload) \<in> set (published g (snd (delete rt eng now table whereObj g)))"
  proof (cases "hasSoftDelete schema")
    case True
    from soft[OF True] obtain c where
      "published g (snd (delete rt eng now table whereObj g))
         = (case fst (delete rt eng now table whereObj g) of
              Inr result \<Rightarrow>
                [(table @ '':update'',
                  VObj [(''where'', VObj whereObj), (''data'', VObj [(c, VStr now)])])]
            | Inl e \<Rightarrow> [])" by blast
    with p have False by (cases "fst (delete rt eng now table whereObj g)") auto
    then show ?thesis ..
  next
    case False
    from hard[OF False] p show ?thesis
      by (cases "stmt_run eng (delete_sql table whereObj) (map snd whereObj) (db g)") (auto simp: False)
  qed
  from soft hard only show ?thesis by blast
qed

theorem soft_delete_events_witness:
  "published archive_db (snd (delete reference_runtime recording_engine ''2024-03-02T10:00:00.000Z''
       ''archive'' [(''id'', VNum 1)] archive_db))
     = [(''archive:update'',
         VObj [(''where'', VObj [(''id'', VNum 1)]),
               (''data'', VObj [(''removed_at'', VStr ''2024-03-02T10:00:00.000Z'')])])]
   \<and> published archive_db (snd (delete reference_runtime recording_engine ''2024-03-02T10:00:00.000Z''
       ''notes'' [(''id'', VNum 1)] archive_db))
     = [(''notes:delete'', VObj [(''id'', VNum 1)])]"
proof -
  let ?now = "''2024-03-02T10:00:00.000Z''"
  let ?w = "[(''id'', VNum 1)]"
  have ta: "tables archive_db ''archive'' = Some archive_schema" by (simp add: archive_db_def)
  have tn: "tables archive_db ''notes'' = Some notes_schema" by (simp add: archive_db_def)
  have na: "\<forall>(k, c) \<in> set archive_schema. k \<noteq> []" by (simp add: archive_schema_def)
  have nn: "\<forall>(k, c) \<in> set notes_schema. k \<noteq> []" by (simp add: notes_schema_def)
  have ha: "hasSoftDelete archive_schema" by code_simp
  have hn: "\<not> hasSoftDelete notes_schema" by code_simp
  have ca: "softDeleteColumn archive_schema = Some ''removed_at''" by code_simp
  have ok: "fst (delete reference_runtime recording_engine ?now ''archive'' ?w archive_db)
              = Inr \<lparr>changes = 1, lastInsertRowid = 1\<rparr>"
    by code_simp
  from soft_delete_events [OF ta na, of reference_runtime recording_engine ?now ?w] ha
  obtain c where c: "softDeleteColumn archive_schema = Some c"
    and pub: "published archive_db (snd (delete reference_runtime recording_engine ?now ''archive'' ?w archive_db))
       = (case fst (delete reference_runtime recording_engine ?now ''archive'' ?w archive_db) of
            Inr result \<Rightarrow>
              [(''archive'' @ '':update'', VObj [(''where'', VObj ?w), (''data'', VObj [(c, VStr ?now)])])]
          | Inl e \<Rightarrow> [])"
    by blast
  from c ca have "c = ''removed_at''" by simp
  with pub ok
  have a: "published archive_db (snd (delete reference_runtime recording_engine ?now ''archive'' ?w archive_db))
     = [(''archive:update'',
         VObj [(''where'', VObj ?w), (''data'', VObj [(''removed_at'', VStr ?now)])])]"
    by simp
  from soft_delete_events [OF tn nn, of reference_runtime recording_engine ?now ?w] hn
  have "published archive_db (snd (delete reference_runtime recording_engine ?now ''notes'' ?w archive_db))
     = (case stmt_run recording_engine (delete_sql ''notes'' ?w) (map snd ?w) (db archive_db) of
          Inr result \<Rightarrow> [(''notes'' @ '':delete'', VObj ?w)]
        | Inl e \<Rightarrow> [])"
    by blast
  then have b: "published archive_db (snd (delete reference_runtime recording_engine ?now ''notes'' ?w archive_db))
     = [(''notes:delete'', VObj ?w)]"
    by (simp add: recording_engine_def)
  from a b show ?thesis by blast
qed

section \<open>Validation\<close>

text \<open>
  C8: on a table that has a schema and a validator, \<^verbatim>\<open>insert\<close> hands the payload to
  \<^verbatim>\<open>parse\<close> and \<^verbatim>\<open>update\<close> hands it to \<^verbatim>\<open>partial().parse\<close>; when the validator rejects, the call
  raises the validator's error and the state is the one before the call: no value was
  encoded, no statement ran, no event was published (the outcome does not depend on the
  runtime or the engine). With no validator registered, the write is the one a validator
  that accepts everything would allow.
\<close>

theorem validation_gate:
  assumes "tables g table = Some schema"
  shows "(validators g table = Some validator \<and> parse validator data = Some e
            \<longrightarrow> insert rt eng table data g = (Inl e, g))
       \<and> (validators g table = Some validator \<and> partial_parse validator data = Some e
            \<longrightarrow> update rt eng table data whereObj g = (Inl e, g))
       \<and> (validators g table = None
            \<longrightarrow> insert rt eng table data g
                  = (case insert rt eng table data (setValidator table accept_all g) of
                       (r, g') \<Rightarrow> (r, g'\<lparr>validators := validators g\<rparr>))
              \<and> update rt eng table data whereObj g
                  = (case update rt eng table data whereObj (setValidator table accept_all g) of
                       (r, g') \<Rightarrow> (r, g'\<lparr>validators := validators g\<rparr>)))"
proof (intro conjI impI)
  assume "validators g table = Some validator \<and> parse validator data = Some e"
  with assms show "insert rt eng table data g = (Inl e, g)" by (simp add: insert_def)
next
  assume "validators g table = Some validator \<and> partial_parse validator data = Some e"
  with assms show "update rt eng table data whereObj g = (Inl e, g)" by (simp add: update_def)
next
  assume n: "validators g table = None"
  show "insert rt eng table data g
                  = (case insert rt eng table data (setValidator table accept_all g) of
                       (r, g') \<Rightarrow> (r, g'\<lparr>validators := validators g\<rparr>))"
    using assms n
    by (auto simp: insert_def setValidator_def accept_all_def emit_def split: sum.splits prod.splits)
next
  assume n: "validators g table = None"
  show "update rt eng table data whereObj g
                  = (case update rt eng table data whereObj (setValidator table accept_all g) of
                       (r, g') \<Rightarrow> (r, g'\<lparr>validators := validators g\<rparr>))"
    using assms n
    by (auto simp: update_def setValidator_def accept_all_def emit_def split: sum.splits prod.splits)
qed

theorem validation_gate_witness:
  "insert reference_runtime recording_engine ''users''
       [(''email'', VStr ''a@b.com''), (''settings'', VStr ''not json'')] test_db
     = (Inl (ValidationError ''password: Required''), test_db)
   \<and> update reference_runtime recording_engine ''users''
       [(''password'', VStr ''short'')] [(''email'', VStr ''a@b.com'')] test_db
     = (Inl (ValidationError ''password: String must contain at least 8 character(s)''), test_db)
   \<and> insert reference_runtime recording_engine ''notes'' [(''body'', VStr ''hello'')] archive_db
     = (case insert reference_runtime recording_engine ''notes'' [(''body'', VStr ''hello'')]
               (setValidator ''notes'' accept_all archive_db) of
          (r, g') \<Rightarrow> (r, g'\<lparr>validators := validators archive_db\<rparr>))"
proof -
  have t: "tables test_db ''users'' = Some users_schema" by (simp add: test_db_def)
  have v: "validators test_db ''users'' = Some userSchema" by (simp add: test_db_def)
  have p: "parse userSchema [(''email'', VStr ''a@b.com''), (''settings'', VStr ''not json'')]
             = Some (ValidationError ''password: Required'')"
    by (simp add: userSchema_def check_user_def check_email_def check_password_def)
  have q: "partial_parse userSchema [(''password'', VStr ''short'')]
             = Some (ValidationError ''password: String must contain at least 8 character(s)'')"
    by (simp add: userSchema_def check_user_def check_email_def check_password_def)
  have t': "tables archive_db ''notes'' = Some notes_schema" by (simp add: archive_db_def)
  have v': "validators archive_db ''notes'' = None" by (simp add: archive_db_def)
  from validation_gate [OF t, where validator = userSchema
      and data = "[(''email'', VStr ''a@b.com''), (''settings'', VStr ''not json'')]"
      and e = "ValidationError ''password: Required''"] v p
  have a: "insert reference_runtime recording_engine ''users''
       [(''email'', VStr ''a@b.com''), (''settings'', VStr ''not json'')] test_db
     = (Inl (ValidationError ''password: Required''), test_db)" by blast
  from validation_gate [OF t, where validator = userSchema
      and data = "[(''password'', VStr ''short'')]"
      and e = "ValidationError ''password: String must contain at least 8 character(s)''"] v q
  have b: "update reference_runtime recording_engine ''users''
       [(''password'', VStr ''short'')] [(''email'', VStr ''a@b.com'')] test_db
     = (Inl (ValidationError ''password: String must contain at least 8 character(s)''), test_db)"
    by blast
  from validation_gate [OF t', where data = "[(''body'', VStr ''hello'')]"] v'
  have c: "insert reference_runtime recording_engine ''notes'' [(''body'', VStr ''hello'')] archive_db
     = (case insert reference_runtime recording_engine ''notes'' [(''body'', VStr ''hello'')]
               (setValidator ''notes'' accept_all archive_db) of
          (r, g') \<Rightarrow> (r, g'\<lparr>validators := validators archive_db\<rparr>))" by blast
  from a b c show ?thesis by blast
qed

section \<open>Pagination\<close>

text \<open>
  C10: when \<^verbatim>\<open>limit\<close> is missing or 0, \<^verbatim>\<open>find\<close> builds the query it builds without
  \<^verbatim>\<open>limit\<close> and \<^verbatim>\<open>offset\<close>, and returns what it returns without \<^verbatim>\<open>offset\<close>; with a truthy
  \<^verbatim>\<open>limit\<close>, a truthy \<^verbatim>\<open>offset\<close> adds the clause \<^verbatim>\<open>OFFSET\<close> at the end of the query.
\<close>

theorem offset_needs_limit:
  "(\<not> truthy_number (limit options) \<longrightarrow>
      find_query table schema whereObj options
        = find_query table schema whereObj (options\<lparr>limit := None, offset := None\<rparr>)
      \<and> find rt eng table whereObj options g = find rt eng table whereObj (options\<lparr>offset := None\<rparr>) g)
   \<and> (truthy_number (limit options) \<and> truthy_number (offset options) \<longrightarrow>
        find_query table schema whereObj options
          = find_query table schema whereObj (options\<lparr>offset := None\<rparr>)
            @ '' OFFSET '' @ show_int (the (offset options)))"
  by (simp add: find_def find_query_def find_conditions_def Let_def split: option.splits)

theorem offset_needs_limit_witness:
  "find reference_runtime recording_engine ''users'' [] (no_options\<lparr>offset := Some 3\<rparr>) test_db
     = find reference_runtime recording_engine ''users'' [] no_options test_db
   \<and> find_query ''users'' users_schema [] (no_options\<lparr>limit := Some 0, offset := Some 3\<rparr>)
     = ''SELECT * FROM users WHERE deleted_at IS NULL''
   \<and> find_query ''users'' users_schema []
       (no_options\<lparr>limit := Some 2, offset := Some 1,
                    orderBy := Some \<lparr>ob_column = ''age'', ob_direction = DESC\<rparr>\<rparr>)
     = ''SELECT * FROM users WHERE deleted_at IS NULL ORDER BY age DESC LIMIT 2 OFFSET 1''"
proof -
  have l0: "\<not> truthy_number (limit (no_options\<lparr>offset := Some 3\<rparr>))" by (simp add: no_options_def)
  have l1: "\<not> truthy_number (limit (no_options\<lparr>limit := Some 0, offset := Some 3\<rparr>))" by simp
  let ?o = "no_options\<lparr>limit := Some 2, offset := Some 1,
                    orderBy := Some \<lparr>ob_column = ''age'', ob_direction = DESC\<rparr>\<rparr>"
  have l2: "truthy_number (limit ?o) \<and> truthy_number (offset ?o)" by simp
  have e0: "(no_options\<lparr>offset := Some 3\<rparr>)\<lparr>offset := None\<rparr> = no_options" by (simp add: no_options_def)
  have q0: "find_query ''users'' users_schema [] (no_options\<lparr>limit := None, offset := None\<rparr>)
     = ''SELECT * FROM users WHERE deleted_at IS NULL''" by code_simp
  have q2: "find_query ''users'' users_schema [] (?o\<lparr>offset := None\<rparr>) @ '' OFFSET '' @ show_int (the (offset ?o))
     = ''SELECT * FROM users WHERE deleted_at IS NULL ORDER BY age DESC LIMIT 2 OFFSET 1''" by code_simp
  from offset_needs_limit [of "no_options\<lparr>offset := Some 3\<rparr>" "''users''" users_schema "[]"
      reference_runtime recording_engine test_db] l0 e0
  have a: "find reference_runtime recording_engine ''users'' [] (no_options\<lparr>offset := Some 3\<rparr>) test_db
     = find reference_runtime recording_engine ''users'' [] no_options test_db" by simp
  from offset_needs_limit [of "no_options\<lparr>limit := Some 0, offset := Some 3\<rparr>" "''users''" users_schema "[]"
      reference_runtime recording_engine test_db] l1 q0
  have b: "find_query ''users'' users_schema [] (no_options\<lparr>limit := Some 0, offset := Some 3\<rparr>)
     = ''SELECT * FROM users WHERE deleted_at IS NULL''" by simp
  from offset_needs_limit [of ?o "''users''" users_schema "[]"
      reference_runtime recording_engine test_db] l2 q2
  have c: "find_query ''users'' users_schema [] ?o
     = ''SELECT * FROM users WHERE deleted_at IS NULL ORDER BY age DESC LIMIT 2 OFFSET 1''" by simp
  from a b c show ?thesis by blast
qed

section \<open>Migrations\<close>








text \<open>
  C7 (\<^verbatim>\<open>migrate('down')\<close> walks the units in forward order and, for each one in the ledger,
  calls its down-procedure and deletes its row). The constructor has created the migration
  directory, so \<^verbatim>\<open>existsSync\<close> holds and \<^verbatim>\<open>migrate\<close> reads \<^verbatim>\<open>readdirSync\<close>, which the module
  never imports: the call throws a \<^verbatim>\<open>ReferenceError\<close> before the loop. With one applied unit
  in the ledger, \<^verbatim>\<open>migrate('down')\<close> calls no procedure and the unit's row stays.
\<close>

theorem migrate_down_throws:
  "fst (migrate (ledger_engine recording_engine) test_existsSync Down applied_db) = []
   \<and> fst (snd (migrate (ledger_engine recording_engine) test_existsSync Down applied_db))
       = Some (ReferenceError ''readdirSync is not defined'')
   \<and> ledger_names (snd (snd (migrate (ledger_engine recording_engine) test_existsSync Down applied_db)))
       = [''20240224_add_user_settings.ts'']"
  by code_simp

section \<open>The reference runtime reads back what it writes\<close>

text \<open>
  \<open>parse_json (stringify v) = Inr v\<close> for every value, so the bound of \<open>parse_json\<close> is
  enough for every text that \<open>stringify\<close> writes, and the stand-in cipher decrypts what it
  has encrypted. The round trips of the codec, which assume this of the runtime, therefore
  hold in the reference runtime for every value and every string.
\<close>

subsection \<open>Numbers\<close>

declare show_nat.simps [simp del]

lemma show_nat_small: "n < 10 \<Longrightarrow> show_nat n = [digit n]"
  by (subst show_nat.simps) simp

lemma show_nat_large: "\<not> n < 10 \<Longrightarrow> show_nat n = show_nat (n div 10) @ [digit (n mod 10)]"
  by (subst show_nat.simps) simp

lemma digit_table: "\<forall>k \<in> set [0..<10]. is_digit (digit k) \<and> digit_val (digit k) = k \<and> digit k \<noteq> CHR ''-''
   \<and> (k \<noteq> 0 \<longrightarrow> digit k \<noteq> CHR ''0'')"
  by code_simp

lemma digit_props:
  "is_digit (digit n)" "digit_val (digit n) = n mod 10"
proof -
  have "n mod 10 \<in> set [0..<10]" by simp
  with digit_table have "is_digit (digit (n mod 10)) \<and> digit_val (digit (n mod 10)) = n mod 10" by blast
  moreover have "digit (n mod 10) = digit n" by (simp add: digit_def)
  ultimately show "is_digit (digit n)" "digit_val (digit n) = n mod 10" by simp_all
qed

lemma digit_nonzero: "0 < n \<Longrightarrow> n < 10 \<Longrightarrow> digit n \<noteq> CHR ''0''"
proof -
  assume "0 < n" "n < 10"
  then have "n \<in> set [0..<10]" "n \<noteq> 0" by simp_all
  with digit_table show ?thesis by blast
qed

lemma stops_number_not_digit:
  "stops_number (c # cs) \<Longrightarrow> \<not> is_digit c \<and> c \<noteq> CHR ''.'' \<and> c \<noteq> CHR ''e'' \<and> c \<noteq> CHR ''E''"
  by (auto simp: stops_number_def is_digit_def)

lemma read_digits_stop: "stops_number r \<Longrightarrow> read_digits a r = (a, r)"
  by (cases r) (auto dest: stops_number_not_digit)

lemma read_digits_show_nat:
  "read_digits acc (show_nat n @ r) = read_digits (acc * 10 ^ length (show_nat n) + n) r"
proof (induction n arbitrary: acc r rule: show_nat.induct)
  case (1 n)
  show ?case
  proof (cases "n < 10")
    case True
    then show ?thesis
      by (simp add: show_nat_small digit_props)
  next
    case False
    have "read_digits acc (show_nat n @ r)
        = read_digits acc (show_nat (n div 10) @ (digit (n mod 10) # r))"
      by (simp add: show_nat_large[OF False])
    also have "\<dots> = read_digits (acc * 10 ^ length (show_nat (n div 10)) + n div 10) (digit (n mod 10) # r)"
      by (rule "1.IH"[OF False])
    also have "\<dots> = read_digits ((acc * 10 ^ length (show_nat (n div 10)) + n div 10) * 10 + n mod 10) r"
      by (simp add: digit_props)
    also have "(acc * 10 ^ length (show_nat (n div 10)) + n div 10) * 10 + n mod 10
        = acc * 10 ^ length (show_nat n) + n"
      by (simp add: show_nat_large[OF False] algebra_simps)
    finally show ?thesis .
  qed
qed

lemma show_nat_nonempty: "show_nat n \<noteq> []"
  by (cases "n < 10") (simp_all add: show_nat_small show_nat_large)

lemma show_nat_hd: "\<exists>c cs. show_nat n = c # cs \<and> is_digit c \<and> c \<noteq> CHR ''-'' \<and> (0 < n \<longrightarrow> c \<noteq> CHR ''0'')"
proof (induction n rule: show_nat.induct)
  case (1 n)
  show ?case
  proof (cases "n < 10")
    case True
    have "n mod 10 = n" using True by simp
    moreover have "n mod 10 \<in> set [0..<10]" by simp
    ultimately have "n \<in> set [0..<10]" by simp
    with digit_table have "is_digit (digit n) \<and> digit n \<noteq> CHR ''-'' \<and> (n \<noteq> 0 \<longrightarrow> digit n \<noteq> CHR ''0'')"
      by blast
    with True show ?thesis by (simp add: show_nat_small)
  next
    case False
    then have "0 < n div 10" by simp
    with "1.IH"[OF False] obtain c cs where "show_nat (n div 10) = c # cs" "is_digit c" "c \<noteq> CHR ''-''"
      "c \<noteq> CHR ''0''" by blast
    then show ?thesis by (simp add: show_nat_large[OF False])
  qed
qed

lemma show_nat_zero: "show_nat 0 = ''0''"
  by (simp add: show_nat_small digit_def)

lemma parse_unsigned_show_nat:
  assumes "stops_number r"
  shows "parse_unsigned (show_nat n @ r) = Some (n, r)"
proof (cases "n = 0")
  case True
  with assms show ?thesis
    by (cases r) (auto simp: parse_unsigned_def show_nat_zero is_digit_def dest: stops_number_not_digit)
next
  case False
  from show_nat_hd[of n] False obtain c cs where h: "show_nat n = c # cs" "is_digit c" "c \<noteq> CHR ''0''"
    by auto
  have "read_digits 0 (show_nat n @ r) = (n, r)"
    by (simp add: read_digits_show_nat read_digits_stop[OF assms])
  with h show ?thesis by (simp add: parse_unsigned_def)
qed

lemma parse_number_show_int:
  assumes "stops_number r"
  shows "parse_number (show_int i @ r) = Some (VNum i, r)"
proof -
  have fin: "(case r of [] \<Rightarrow> Some (VNum i, r)
       | c # cs \<Rightarrow> if c = CHR ''.'' \<or> c = CHR ''e'' \<or> c = CHR ''E'' then None else Some (VNum i, r))
     = Some (VNum i, r)"
    using assms by (cases r) (auto dest: stops_number_not_digit)
  show ?thesis
  proof (cases "i < 0")
    case True
    then have "show_int i @ r = CHR ''-'' # show_nat (nat (- i)) @ r" by (simp add: show_int_def)
    with True fin show ?thesis
      by (simp add: parse_number_def parse_unsigned_show_nat[OF assms])
  next
    case False
    from show_nat_hd[of "nat i"] obtain c cs where h: "show_nat (nat i) = c # cs" "c \<noteq> CHR ''-''" by blast
    from False have "show_int i @ r = show_nat (nat i) @ r" by (simp add: show_int_def)
    moreover have "parse_unsigned (show_nat (nat i) @ r) = Some (nat i, r)"
      by (rule parse_unsigned_show_nat[OF assms])
    ultimately show ?thesis using h False fin
      by (simp add: parse_number_def)
  qed
qed

subsection \<open>Strings\<close>

lemma hex_table: "\<forall>k \<in> set [0..<16]. hex_val (hex_digit k) = Some k"
  by code_simp

lemma hex_val_hex_digit: "hex_val (hex_digit n) = Some (n mod 16)"
proof -
  have "n mod 16 \<in> set [0..<16]" by simp
  with hex_table have "hex_val (hex_digit (n mod 16)) = Some (n mod 16)" by blast
  moreover have "hex_digit (n mod 16) = hex_digit n" by (simp add: hex_digit_def)
  ultimately show ?thesis by simp
qed

lemma unicode_escape_hex:
  "unicode_escape (CHR ''0'') (CHR ''0'') (hex_digit (of_char c div 16)) (hex_digit (of_char c)) = Some c"
proof -
  have z: "hex_val (CHR ''0'') = Some 0" by (simp add: hex_val_def)
  have lt: "(of_char c :: nat) < 256" by simp
  then have "(of_char c :: nat) div 16 < 16" by (simp add: less_mult_imp_div_less)
  then have d: "(of_char c :: nat) div 16 mod 16 = of_char c div 16" by simp
  have "char_of ((of_char c :: nat) div 16 * 16 + of_char c mod 16) = c" by simp
  then show ?thesis
    by (simp add: unicode_escape_def z hex_val_hex_digit d)
qed

lemma parse_chars_escape:
  "parse_chars (escape_char c @ t) = map_option (\<lambda>(str, rest). (c # str, rest)) (parse_chars t)"
proof -
  consider (q) "c = quote_char" | (b) "c = backslash"
    | (s) "c \<noteq> quote_char" "c \<noteq> backslash" "c \<in> {CHR 0x08, CHR 0x0C, CHR 0x0A, CHR 0x0D, CHR 0x09}"
    | (u) "c \<noteq> quote_char" "c \<noteq> backslash" "c \<notin> {CHR 0x08, CHR 0x0C, CHR 0x0A, CHR 0x0D, CHR 0x09}"
          "(of_char c :: nat) < 32"
    | (p) "c \<noteq> quote_char" "c \<noteq> backslash" "\<not> (of_char c :: nat) < 32"
    by blast
  then show ?thesis
  proof cases
    case q
    then show ?thesis by (simp add: escape_char_def unescape_def quote_char_def backslash_def)
  next
    case b
    then show ?thesis by (simp add: escape_char_def unescape_def quote_char_def backslash_def)
  next
    case s
    then show ?thesis
      by (auto simp: escape_char_def unescape_def quote_char_def backslash_def)
  next
    case u
    have bq: "backslash \<noteq> quote_char" by (simp add: quote_char_def backslash_def)
    from u have "escape_char c = [backslash, CHR ''u'', CHR ''0'', CHR ''0'',
         hex_digit ((of_char c :: nat) div 16), hex_digit (of_char c :: nat)]"
      by (simp add: escape_char_def)
    then show ?thesis by (simp add: bq unicode_escape_hex)
  next
    case p
    then have "escape_char c = [c]"
      by (auto simp: escape_char_def)
    with p show ?thesis by simp
  qed
qed

lemma parse_chars_escaped:
  "parse_chars (concat (map escape_char s) @ quote_char # t) = Some (s, t)"
  by (induction s) (simp_all add: parse_chars_escape)

lemma parse_chars_quote: "parse_chars (tl (quote s) @ t) = Some (s, t)"
  by (simp add: quote_def parse_chars_escaped)

subsection \<open>Values\<close>

lemma skip_ws_keep: "\<not> is_ws c \<Longrightarrow> skip_ws (c # cs) = c # cs"
  by (simp add: skip_ws_def)

lemma stops_number_skip: "stops_number (c # cs) \<Longrightarrow> skip_ws (c # cs) = c # cs"
  by (rule skip_ws_keep) (auto simp: stops_number_def is_ws_def)

lemma stops_number_simps [simp]:
  "stops_number []" "stops_number (CHR '','' # r)" "stops_number (CHR '']'' # r)" "stops_number (CHR ''}'' # r)"
  by (simp_all add: stops_number_def)

lemma is_digit_starts: "is_digit c \<Longrightarrow> starts_value c"
  by (auto simp: is_digit_def starts_value_def is_ws_def)

lemma show_int_hd: "\<exists>c cs. show_int i = c # cs \<and> (c = CHR ''-'' \<or> is_digit c)"
proof -
  from show_nat_hd[of "nat i"] obtain c cs where "show_nat (nat i) = c # cs" "is_digit c" by blast
  then show ?thesis by (cases "i < 0") (auto simp: show_int_def)
qed

lemma stringify_hd: "\<exists>c cs. stringify v = c # cs \<and> starts_value c"
proof (cases v)
  case (VNum i)
  from show_int_hd[of i] obtain c cs where h: "show_int i = c # cs" "c = CHR ''-'' \<or> is_digit c" by blast
  then have "starts_value c" by (auto simp: is_digit_starts) (simp add: starts_value_def is_ws_def)
  with h VNum show ?thesis by simp
qed (auto simp: starts_value_def is_ws_def quote_def quote_char_def)

lemma parse_value_atom:
  assumes "stops_number r"
  shows "parse_value (Suc n) (''null'' @ r) = Some (VNull, r)"
    and "parse_value (Suc n) (''true'' @ r) = Some (VBool True, r)"
    and "parse_value (Suc n) (''false'' @ r) = Some (VBool False, r)"
  by (simp_all add: skip_ws_def is_ws_def)

lemma parse_value_string:
  "parse_value (Suc n) (quote s @ r) = Some (VStr s, r)"
proof -
  have nw: "\<not> is_ws quote_char" by (simp add: is_ws_def quote_char_def)
  have "quote s @ r = quote_char # (concat (map escape_char s) @ quote_char # r)"
    by (simp add: quote_def)
  then show ?thesis
    by (simp add: skip_ws_keep[OF nw] parse_chars_escaped) (simp add: quote_char_def)
qed

lemma parse_value_number:
  assumes "stops_number r"
  shows "parse_value (Suc n) (show_int i @ r) = Some (VNum i, r)"
proof -
  from show_int_hd[of i] obtain c cs where h: "show_int i = c # cs" "c = CHR ''-'' \<or> is_digit c" by blast
  then have nw: "\<not> is_ws c" and other: "c \<noteq> CHR ''n''" "c \<noteq> CHR ''t''" "c \<noteq> CHR ''f''"
    "c \<noteq> quote_char" "c \<noteq> CHR ''[''" "c \<noteq> CHR ''{''"
    by (auto simp: is_ws_def is_digit_def quote_char_def)
  have "parse_number (c # cs @ r) = Some (VNum i, r)"
    using parse_number_show_int[OF assms, of i] h by simp
  with nw other h show ?thesis by (simp add: skip_ws_keep)
qed


lemma stringify_elements_hd:
  "vs \<noteq> [] \<Longrightarrow> \<exists>c cs. stringify_elements vs = c # cs \<and> starts_value c"
proof (cases vs)
  case Nil
  assume "vs \<noteq> []"
  with Nil show ?thesis by simp
next
  case (Cons v ws)
  from stringify_hd[of v] obtain c cs where "stringify v = c # cs" "starts_value c" by blast
  with Cons show ?thesis by (cases ws) auto
qed

lemma stringify_members_hd:
  "ms \<noteq> [] \<Longrightarrow> \<exists>cs. stringify_members ms = quote_char # cs"
proof (cases ms)
  case Nil
  assume "ms \<noteq> []"
  with Nil show ?thesis by simp
next
  case (Cons m ns)
  obtain k v where "m = (k, v)" by (cases m)
  with Cons show ?thesis by (cases ns) (auto simp: quote_def)
qed

lemma parse_value_array:
  assumes "vs \<noteq> [] \<Longrightarrow> parse_elements n (stringify_elements vs @ CHR '']'' # r) = Some (vs, r)"
  shows "parse_value (Suc n) (stringify (VArr vs) @ r) = Some (VArr vs, r)"
proof (cases "vs = []")
  case True
  then show ?thesis by (simp add: skip_ws_def is_ws_def quote_char_def)
next
  case False
  from stringify_elements_hd[OF False] obtain c cs where
    h: "stringify_elements vs = c # cs" "starts_value c" by blast
  then have k: "skip_ws (c # cs @ CHR '']'' # r) = c # cs @ CHR '']'' # r" "c \<noteq> CHR '']''"
    by (simp_all add: starts_value_def skip_ws_keep)
  from assms[OF False] h have "parse_elements n (c # cs @ CHR '']'' # r) = Some (vs, r)" by simp
  with h k show ?thesis by (simp add: skip_ws_def is_ws_def quote_char_def)
qed

lemma parse_value_object:
  assumes "ms \<noteq> [] \<Longrightarrow> parse_members n (stringify_members ms @ CHR ''}'' # r) = Some (ms, r)"
  shows "parse_value (Suc n) (stringify (VObj ms) @ r) = Some (VObj ms, r)"
proof (cases "ms = []")
  case True
  then show ?thesis by (simp add: skip_ws_def is_ws_def quote_char_def)
next
  case False
  from stringify_members_hd[OF False] obtain cs where
    h: "stringify_members ms = quote_char # cs" by blast
  have k: "skip_ws (quote_char # cs @ CHR ''}'' # r) = quote_char # cs @ CHR ''}'' # r"
    "quote_char \<noteq> CHR ''}''"
    by (simp_all add: skip_ws_def is_ws_def quote_char_def)
  from assms[OF False] h have "parse_members n (quote_char # cs @ CHR ''}'' # r) = Some (ms, r)" by simp
  with h k show ?thesis by (simp add: skip_ws_def is_ws_def) (simp add: quote_char_def)
qed

lemma parse_elements_last:
  assumes "parse_value n (stringify v @ CHR '']'' # r) = Some (v, CHR '']'' # r)"
  shows "parse_elements (Suc n) (stringify_elements [v] @ CHR '']'' # r) = Some ([v], r)"
  using assms by (simp add: skip_ws_def is_ws_def)

lemma parse_elements_more:
  assumes "parse_value n (stringify v @ CHR '','' # t) = Some (v, CHR '','' # t)"
    and "parse_elements n t = Some (ws, r)"
  shows "parse_elements (Suc n) (stringify v @ CHR '','' # t) = Some (v # ws, r)"
  using assms by (simp add: skip_ws_def is_ws_def)

lemma parse_members_last:
  assumes "parse_value n (stringify v @ CHR ''}'' # r) = Some (v, CHR ''}'' # r)"
  shows "parse_members (Suc n) (stringify_members [(k, v)] @ CHR ''}'' # r) = Some ([(k, v)], r)"
proof -
  have "stringify_members [(k, v)] @ CHR ''}'' # r
      = quote_char # (concat (map escape_char k) @ quote_char # (CHR '':'' # stringify v @ CHR ''}'' # r))"
    by (simp add: quote_def)
  moreover have "skip_ws (quote_char # x) = quote_char # x" for x
    by (simp add: skip_ws_def is_ws_def quote_char_def)
  ultimately show ?thesis using assms
    by (simp add: parse_chars_escaped) (simp add: skip_ws_def is_ws_def)
qed

lemma parse_members_more:
  assumes "parse_value n (stringify v @ CHR '','' # t) = Some (v, CHR '','' # t)"
    and "parse_members n t = Some (ns, r)"
  shows "parse_members (Suc n) (stringify_member (k, v) @ CHR '','' # t) = Some ((k, v) # ns, r)"
proof -
  have "stringify_member (k, v) @ CHR '','' # t
      = quote_char # (concat (map escape_char k) @ quote_char # (CHR '':'' # stringify v @ CHR '','' # t))"
    by (simp add: quote_def)
  moreover have "skip_ws (quote_char # x) = quote_char # x" for x
    by (simp add: skip_ws_def is_ws_def quote_char_def)
  ultimately show ?thesis using assms
    by (simp add: parse_chars_escaped) (simp add: skip_ws_def is_ws_def)
qed

lemma parse_stringify:
  "\<forall>n r. cost v \<le> n \<longrightarrow> stops_number r \<longrightarrow> parse_value n (stringify v @ r) = Some (v, r)"
  "vs \<noteq> [] \<longrightarrow> (\<forall>n r. cost_elements vs \<le> n \<longrightarrow> stops_number r \<longrightarrow>
       parse_elements n (stringify_elements vs @ CHR '']'' # r) = Some (vs, r))"
  "ms \<noteq> [] \<longrightarrow> (\<forall>n r. cost_members ms \<le> n \<longrightarrow> stops_number r \<longrightarrow>
       parse_members n (stringify_members ms @ CHR ''}'' # r) = Some (ms, r))"
  "\<forall>n r. cost (snd (m :: string \<times> jsvalue)) \<le> n \<longrightarrow> stops_number r \<longrightarrow>
       parse_value n (stringify (snd m) @ r) = Some (snd m, r)"
proof (induction v and vs and ms and m
    rule: stringify_stringify_elements_stringify_members_stringify_member.induct)
  case 1
  show ?case
  proof (intro allI impI)
    fix n r assume "cost VNull \<le> n" "stops_number r"
    then obtain k where "n = Suc k" by (cases n) auto
    with \<open>stops_number r\<close> show "parse_value n (stringify VNull @ r) = Some (VNull, r)"
      using parse_value_atom(1)[of r k] by simp
  qed
next
  case (2 b)
  show ?case
  proof (intro allI impI)
    fix n r assume "cost (VBool b) \<le> n" "stops_number r"
    then obtain k where "n = Suc k" by (cases n) auto
    with \<open>stops_number r\<close> show "parse_value n (stringify (VBool b) @ r) = Some (VBool b, r)"
      using parse_value_atom(2,3)[of r k] by (cases b) simp_all
  qed
next
  case (3 i)
  show ?case
  proof (intro allI impI)
    fix n r assume "cost (VNum i) \<le> n" "stops_number r"
    then obtain k where "n = Suc k" by (cases n) auto
    with \<open>stops_number r\<close> show "parse_value n (stringify (VNum i) @ r) = Some (VNum i, r)"
      using parse_value_number[of r k i] by simp
  qed
next
  case (4 s)
  show ?case
  proof (intro allI impI)
    fix n r assume "cost (VStr s) \<le> n" "stops_number r"
    then obtain k where "n = Suc k" by (cases n) auto
    then show "parse_value n (stringify (VStr s) @ r) = Some (VStr s, r)"
      using parse_value_string[of k s r] by simp
  qed
next
  case (5 vs)
  show ?case
  proof (intro allI impI)
    fix n r assume c: "cost (VArr vs) \<le> n" and st: "stops_number r"
    then obtain k where k: "n = Suc k" "cost_elements vs \<le> k" by (cases n) auto
    with 5 st have "vs \<noteq> [] \<Longrightarrow> parse_elements k (stringify_elements vs @ CHR '']'' # r) = Some (vs, r)"
      by blast
    then have "parse_value (Suc k) (stringify (VArr vs) @ r) = Some (VArr vs, r)"
      by (rule parse_value_array)
    with k show "parse_value n (stringify (VArr vs) @ r) = Some (VArr vs, r)" by simp
  qed
next
  case (6 ms)
  show ?case
  proof (intro allI impI)
    fix n r assume c: "cost (VObj ms) \<le> n" and st: "stops_number r"
    then obtain k where k: "n = Suc k" "cost_members ms \<le> k" by (cases n) auto
    with 6 st have "ms \<noteq> [] \<Longrightarrow> parse_members k (stringify_members ms @ CHR ''}'' # r) = Some (ms, r)"
      by blast
    then have "parse_value (Suc k) (stringify (VObj ms) @ r) = Some (VObj ms, r)"
      by (rule parse_value_object)
    with k show "parse_value n (stringify (VObj ms) @ r) = Some (VObj ms, r)" by simp
  qed
next
  case 7
  show ?case by simp
next
  case (8 v)
  show ?case
  proof (intro allI impI)
    fix n r assume c: "cost_elements [v] \<le> n" and st: "stops_number r"
    then obtain k where k: "n = Suc k" "cost v \<le> k" by (cases n) auto
    with 8 have "parse_value k (stringify v @ CHR '']'' # r) = Some (v, CHR '']'' # r)" by simp
    then have "parse_elements (Suc k) (stringify_elements [v] @ CHR '']'' # r) = Some ([v], r)"
      by (rule parse_elements_last)
    with k show "parse_elements n (stringify_elements [v] @ CHR '']'' # r) = Some ([v], r)" by simp
  qed
next
  case (9 v w vs)
  show ?case
  proof (intro allI impI)
    fix n r assume c: "cost_elements (v # w # vs) \<le> n" and st: "stops_number r"
    then obtain k where k: "n = Suc k" "cost v \<le> k" "cost_elements (w # vs) \<le> k" by (cases n) auto
    let ?t = "stringify_elements (w # vs) @ CHR '']'' # r"
    from 9(1) k have "parse_value k (stringify v @ CHR '','' # ?t) = Some (v, CHR '','' # ?t)" by simp
    moreover from 9(2) k st have "parse_elements k ?t = Some (w # vs, r)" by simp
    ultimately have "parse_elements (Suc k) (stringify v @ CHR '','' # ?t) = Some (v # w # vs, r)"
      by (rule parse_elements_more)
    with k show "parse_elements n (stringify_elements (v # w # vs) @ CHR '']'' # r) = Some (v # w # vs, r)"
      by simp
  qed
next
  case 10
  show ?case by simp
next
  case (11 m)
  obtain key v where m: "m = (key, v)" by (cases m)
  show ?case
  proof (intro allI impI)
    fix n r assume c: "cost_members [m] \<le> n" and st: "stops_number r"
    with m obtain k where k: "n = Suc k" "cost v \<le> k" by (cases n) auto
    with 11 m have "parse_value k (stringify v @ CHR ''}'' # r) = Some (v, CHR ''}'' # r)" by simp
    then have "parse_members (Suc k) (stringify_members [(key, v)] @ CHR ''}'' # r) = Some ([(key, v)], r)"
      by (rule parse_members_last)
    with k m show "parse_members n (stringify_members [m] @ CHR ''}'' # r) = Some ([m], r)" by simp
  qed
next
  case (12 m n' ms)
  obtain key v where m: "m = (key, v)" by (cases m)
  show ?case
  proof (intro allI impI)
    fix n r assume c: "cost_members (m # n' # ms) \<le> n" and st: "stops_number r"
    with m obtain k where k: "n = Suc k" "cost v \<le> k" "cost_members (n' # ms) \<le> k" by (cases n) auto
    let ?t = "stringify_members (n' # ms) @ CHR ''}'' # r"
    from 12(1) m k have "parse_value k (stringify v @ CHR '','' # ?t) = Some (v, CHR '','' # ?t)" by simp
    moreover from 12(2) k st have "parse_members k ?t = Some (n' # ms, r)" by simp
    ultimately have "parse_members (Suc k) (stringify_member (key, v) @ CHR '','' # ?t) = Some ((key, v) # n' # ms, r)"
      by (rule parse_members_more)
    with k m show "parse_members n (stringify_members (m # n' # ms) @ CHR ''}'' # r) = Some (m # n' # ms, r)"
      by simp
  qed
next
  case (13 k v)
  then show ?case by simp
qed

lemma shift_arith:
  fixes x y :: nat
  assumes "x < 256" "y < 256"
  shows "((x + y) mod 256 + 256 - y) mod 256 = x"
proof (cases "x + y < 256")
  case True
  then have "(x + y) mod 256 = x + y" by (rule mod_less)
  then have "(x + y) mod 256 + 256 - y = x + 256" by linarith
  moreover have "(x + 256) mod 256 = x" using assms(1) by (simp only: mod_add_self2 mod_less)
  ultimately show ?thesis by (simp only:)
next
  case False
  then have ge: "256 \<le> x + y" by linarith
  then have "(x + y) mod 256 = (x + y - 256) mod 256" by (rule le_mod_geq)
  moreover have "x + y - 256 < 256" using assms by linarith
  ultimately have "(x + y) mod 256 = x + y - 256" by (simp only: mod_less)
  then have "(x + y) mod 256 + 256 - y = x" using ge by linarith
  then show ?thesis using assms(1) by (simp only: mod_less)
qed


lemma shift_back:
  "shift_chars (\<lambda>c k. c + 256 - k) key i (shift_chars (\<lambda>c k. c + k) key i s) = s"
proof (induction s arbitrary: i)
  case Nil
  show ?case by simp
next
  case (Cons c s)
  let ?x = "of_char c :: nat" and ?y = "of_char (key ! (i mod length key)) :: nat"
  have "?x < 256" "?y < 256" by simp_all
  then have "((?x + ?y) mod 256 + 256 - ?y) mod 256 = ?x" by (rule shift_arith)
  then have "char_of ((?x + ?y) mod 256 + 256 - ?y) = c"
    by (metis char_of_mod_256 char_of_char)
  then have "char_of (of_char (char_of (?x + ?y) :: char) + 256 - ?y) = c"
    by (simp only: of_char_of)
  with Cons show ?case by (simp only: shift_chars.simps)
qed

lemma standin_decrypt_encrypt: "standin_decrypt (standin_encrypt s key) key = Inr s"
  by (simp add: standin_decrypt_def standin_encrypt_def shift_back)


lemma length_quote: "length (quote s) = 2 + length (concat (map escape_char s))"
  by (simp add: quote_def)

lemma cost_le_length:
  "cost v \<le> length (stringify v) \<and> 1 \<le> length (stringify v)"
  "cost_elements vs \<le> Suc (length (stringify_elements vs))"
  "cost_members ms \<le> Suc (length (stringify_members ms))"
  "cost (snd (m :: string \<times> jsvalue)) \<le> length (stringify_member m)"
proof (induction v and vs and ms and m
    rule: stringify_stringify_elements_stringify_members_stringify_member.induct)
  case 1
  show ?case by simp
next
  case (2 b)
  show ?case by simp
next
  case (3 i)
  from show_int_hd[of i] obtain c cs where "show_int i = c # cs" by blast
  then show ?case by simp
next
  case (4 s)
  show ?case by (simp add: length_quote)
next
  case (5 vs)
  then show ?case by simp
next
  case (6 ms)
  then show ?case by simp
next
  case 7
  show ?case by simp
next
  case (8 v)
  then show ?case by simp
next
  case (9 v w vs)
  then show ?case by simp
next
  case 10
  show ?case by simp
next
  case (11 m)
  obtain k v where "m = (k, v)" by (cases m)
  with 11 show ?case by simp
next
  case (12 m n ms)
  obtain k v where "m = (k, v)" by (cases m)
  with 12 show ?case by simp
next
  case (13 k v)
  then show ?case by (simp add: length_quote)
qed

lemma parse_json_stringify: "parse_json (stringify v) = Inr v"
proof -
  have c: "cost v \<le> Suc (length (stringify v))" using cost_le_length(1)[of v] by simp
  have s: "stops_number []" by simp
  from parse_stringify(1)[of v] c s
  have "parse_value (Suc (length (stringify v))) (stringify v @ []) = Some (v, [])"
    by blast
  then have pv: "parse_value (Suc (length (stringify v))) (stringify v) = Some (v, [])"
    by (simp only: append_Nil2)
  have ws: "skip_ws [] = []" by (simp add: skip_ws_def)
  have "parse_json (stringify v)
      = (if skip_ws [] = [] then Inr v else Inl (SyntaxError ''Unexpected token''))"
    by (simp only: parse_json_def pv option.case prod.case)
  with ws show ?thesis by simp
qed

lemma reference_runtime_json:
  "json_parse reference_runtime (json_stringify reference_runtime v) = Inr v"
  by (simp add: reference_runtime_def parse_json_stringify)

lemma reference_runtime_aes:
  "aes_decrypt reference_runtime (aes_encrypt reference_runtime s key) key = Inr s"
  by (simp add: reference_runtime_def standin_decrypt_encrypt)

end
